theory Spec2Isabelle
  imports Complex_Main "HOL-Library.Word" "HOL-Library.Monad_Syntax"
begin

unbundle bit_operations_syntax

section \<open>Bytes, protocol constants and results\<close>

type_synonym u8 = "8 word"
type_synonym u32 = "32 word"

text \<open>A C character literal as the byte it denotes.\<close>

definition ch :: "char \<Rightarrow> u8" where
  "ch c = of_char c"

text \<open>A C string literal as its bytes before the terminating NUL; \<open>strlen\<close> is then the
  length of the list.\<close>

definition cstr :: "string \<Rightarrow> u8 list" where
  "cstr s = map ch s"

definition strlen :: "u8 list \<Rightarrow> nat" where
  "strlen cmd = length cmd"

definition STX :: u8 where "STX = 2"
definition ETX :: u8 where "ETX = 3"
definition ENQ :: u8 where "ENQ = 5"
definition ACK :: u8 where "ACK = 6"
definition NAK :: u8 where "NAK = 21"

datatype Result = Busy | Idle | Ack | Nak | Error | Timeout

datatype CommState = Idle | QueryAck | CommandAck | QueryStx | QueryEtx | Cooldown

text \<open>
  The constants that \<open>s21.h\<close> declares and \<open>s21.cpp\<close> only uses are parameters of the
  model: the largest command length and the three intervals, in milliseconds.
\<close>

record s21_consts =
  S21_MAX_COMMAND_SIZE :: nat
  S21_RESPONSE_TURNAROUND :: u32
  S21_RESPONSE_TIMEOUT :: u32
  S21_ERROR_TIMEOUT :: u32

text \<open>Modelled from the spec: the size of the payload array, declared in \<open>s21.h\<close>; the
  spec fixes the payload at 4 bytes and \<open>tx_next\<close> fills exactly the entries 0 to 3.\<close>

definition S21_PAYLOAD_SIZE :: nat where
  "S21_PAYLOAD_SIZE = 4"

section \<open>DaikinSerial: the frame transport\<close>

text \<open>
  \<open>tx_uart\<close> holds every byte written to the transmitting UART, oldest first;
  \<open>rx_uart\<close> holds the bytes received and not yet read. \<open>millis()\<close> is the argument
  \<open>now\<close> of the operations that read the clock.
\<close>

record DaikinSerial =
  comm_state :: CommState
  cooldown_length :: u32
  last_event_time :: u32
  response :: "u8 list"
  tx_uart :: "u8 list"
  rx_uart :: "u8 list"

text \<open>\<open>std::accumulate\<close> with the initial value \<open>0U\<close>: the sum is an \<open>unsigned int\<close>,
  truncated when it is stored in a \<open>uint8_t\<close>.\<close>

definition accumulate_0U :: "u8 list \<Rightarrow> u8" where
  "accumulate_0U bs = ucast (foldl (\<lambda>(acc :: u32) b. acc + ucast b) 0 bs)"

text \<open>\<open>std::accumulate\<close> with a \<open>uint8_t\<close> initial value: the accumulator has that type
  and every step truncates.\<close>

definition accumulate_u8 :: "u8 list \<Rightarrow> u8 \<Rightarrow> u8" where
  "accumulate_u8 bs init = foldl (\<lambda>acc b. acc + b) init bs"

definition enter_cooldown :: "u32 \<Rightarrow> DaikinSerial \<Rightarrow> DaikinSerial" where
  "enter_cooldown len s = s\<lparr>comm_state := Cooldown, cooldown_length := len\<rparr>"

text \<open>
  \<open>handle_rx\<close> returns \<open>None\<close> where the C++ has undefined behaviour: an \<open>ETX\<close> that
  arrives while the response buffer is empty indexes and pops an empty vector.
\<close>

definition handle_rx :: "s21_consts \<Rightarrow> u8 \<Rightarrow> DaikinSerial \<Rightarrow> (Result \<times> DaikinSerial) option" where
  "handle_rx k byte s =
    (case comm_state s of
       QueryAck \<Rightarrow>
         (if byte = ACK then Some (Busy, s\<lparr>comm_state := QueryStx\<rparr>)
          else if byte = NAK then Some (Nak, enter_cooldown (S21_RESPONSE_TURNAROUND k) s)
          else Some (Error, enter_cooldown (S21_ERROR_TIMEOUT k) s))
     | CommandAck \<Rightarrow>
         (if byte = ACK then Some (Ack, enter_cooldown (S21_RESPONSE_TURNAROUND k) s)
          else if byte = NAK then Some (Nak, enter_cooldown (S21_RESPONSE_TURNAROUND k) s)
          else Some (Error, enter_cooldown (S21_ERROR_TIMEOUT k) s))
     | QueryStx \<Rightarrow>
         (if byte = STX then Some (Busy, s\<lparr>comm_state := QueryEtx\<rparr>)
          else if byte = ACK then Some (Busy, s)
          else Some (Error, enter_cooldown (S21_ERROR_TIMEOUT k) s))
     | QueryEtx \<Rightarrow>
         (if byte \<noteq> ETX then
            (let s1 = s\<lparr>response := response s @ [byte]\<rparr> in
             if length (response s1) > S21_MAX_COMMAND_SIZE k + S21_PAYLOAD_SIZE + 1
             then Some (Error, enter_cooldown (S21_ERROR_TIMEOUT k) s1)
             else Some (Busy, s1))
          else if response s = [] then None
          else
            (let checksum = last (response s);
                 s1 = s\<lparr>response := butlast (response s)\<rparr>;
                 calc_checksum = accumulate_0U (response s1) in
             if calc_checksum = checksum \<or> (calc_checksum = STX \<and> checksum = ENQ)
             then Some (Ack, enter_cooldown (S21_RESPONSE_TURNAROUND k)
                               (s1\<lparr>tx_uart := tx_uart s1 @ [ACK]\<rparr>))
             else Some (Error, enter_cooldown (S21_ERROR_TIMEOUT k) s1)))
     | _ \<Rightarrow> Some (Busy, s))"

text \<open>
  The receive loop of \<open>service\<close>: while the result is \<open>Busy\<close> and a byte is available,
  read it, stamp the time and hand it to \<open>handle_rx\<close>. The unread bytes are an argument
  and the bytes left over are returned.
\<close>

fun rx_loop :: "s21_consts \<Rightarrow> u32 \<Rightarrow> u8 list \<Rightarrow> DaikinSerial \<Rightarrow> (Result \<times> u8 list \<times> DaikinSerial) option" where
  "rx_loop k now [] s = Some (Busy, [], s)"
| "rx_loop k now (byte # bs) s =
    (case handle_rx k byte (s\<lparr>last_event_time := now\<rparr>) of
       None \<Rightarrow> None
     | Some (result, s') \<Rightarrow>
         if result = Busy then rx_loop k now bs s' else Some (result, bs, s'))"

definition service :: "s21_consts \<Rightarrow> u32 \<Rightarrow> DaikinSerial \<Rightarrow> (Result \<times> DaikinSerial) option" where
  "service k now s =
    (case comm_state s of
       Idle \<Rightarrow> Some (Result.Idle, s)
     | Cooldown \<Rightarrow>
         (if now - last_event_time s > cooldown_length s
          then Some (Result.Idle, s\<lparr>comm_state := Idle\<rparr>)
          else Some (Busy, s))
     | _ \<Rightarrow>
         (if now - last_event_time s > S21_RESPONSE_TIMEOUT k
          then Some (Timeout, s\<lparr>comm_state := Idle\<rparr>)
          else
            (case rx_loop k now (rx_uart s) (s\<lparr>rx_uart := []\<rparr>) of
               None \<Rightarrow> None
             | Some (result, rest, s') \<Rightarrow> Some (result, s'\<lparr>rx_uart := rest\<rparr>))))"

text \<open>\<open>flush_input\<close>: read and drop bytes while any is available.\<close>

fun drain :: "u8 list \<Rightarrow> u8 list" where
  "drain [] = []"
| "drain (byte # bs) = drain bs"

definition flush_input :: "DaikinSerial \<Rightarrow> DaikinSerial" where
  "flush_input s = s\<lparr>rx_uart := drain (rx_uart s)\<rparr>"

text \<open>The checksum byte that \<open>send_frame\<close> writes: the sum over the command, continued
  over the payload when there is one, with \<open>STX\<close> replaced by \<open>ENQ\<close>.\<close>

definition tx_checksum :: "u8 list \<Rightarrow> u8 list option \<Rightarrow> u8" where
  "tx_checksum cmd payload =
    (let checksum = accumulate_0U (take (strlen cmd) cmd);
         checksum = (case payload of None \<Rightarrow> checksum | Some p \<Rightarrow> accumulate_u8 p checksum)
     in if checksum = STX then ENQ else checksum)"

definition send_frame :: "s21_consts \<Rightarrow> u32 \<Rightarrow> u8 list \<Rightarrow> u8 list option \<Rightarrow> DaikinSerial \<Rightarrow> Result \<times> DaikinSerial" where
  "send_frame k now cmd payload s =
    (if comm_state s \<noteq> Idle then (Busy, s)
     else
       let cmd_len = strlen cmd in
       if cmd_len > S21_MAX_COMMAND_SIZE k then (Error, s)
       else
         let s1 = flush_input (s\<lparr>response := []\<rparr>);
             s2 = s1\<lparr>tx_uart := tx_uart s1 @ [STX]\<rparr>;
             s3 = s2\<lparr>tx_uart := tx_uart s2 @ take cmd_len cmd\<rparr>;
             s4 = (case payload of None \<Rightarrow> s3 | Some p \<Rightarrow> s3\<lparr>tx_uart := tx_uart s3 @ p\<rparr>);
             s5 = s4\<lparr>tx_uart := tx_uart s4 @ [tx_checksum cmd payload]\<rparr>;
             s6 = s5\<lparr>tx_uart := tx_uart s5 @ [ETX]\<rparr>
         in (Ack, s6\<lparr>last_event_time := now,
                     comm_state := (if payload \<noteq> None then CommandAck else QueryAck)\<rparr>))"

section \<open>Numeric helpers\<close>

text \<open>Reading \<open>bytes[i]\<close>: \<open>None\<close> where the buffer holds no initialised byte at \<open>i\<close>.\<close>

definition byte_at :: "u8 list \<Rightarrow> nat \<Rightarrow> u8 option" where
  "byte_at bs i = (if i < length bs then Some (bs ! i) else None)"

text \<open>
  \<open>bytes_to_num\<close>: ones, tens, hundreds, then the sign. The bytes are promoted to
  \<open>int\<close> before the subtraction; the \<open>int16_t\<close> accumulator cannot overflow (the value
  stays between -5328 and 22977), so the sum is written on \<open>int\<close>. The fourth byte is
  read only when \<open>len > 3\<close>.
\<close>

definition bytes_to_num :: "u8 list \<Rightarrow> nat \<Rightarrow> int option" where
  "bytes_to_num bytes len =
    do {
      b0 \<leftarrow> byte_at bytes 0;
      b1 \<leftarrow> byte_at bytes 1;
      b2 \<leftarrow> byte_at bytes 2;
      let val = (uint b0 - uint (ch CHR ''0''))
                + (uint b1 - uint (ch CHR ''0'')) * 10
                + (uint b2 - uint (ch CHR ''0'')) * 100;
      if len > 3 then
        do { b3 \<leftarrow> byte_at bytes 3;
             Some (if b3 = ch CHR ''-'' then val * (- 1) else val) }
      else Some val
    }"

definition temp_bytes_to_c10 :: "u8 list \<Rightarrow> int option" where
  "temp_bytes_to_c10 bytes = bytes_to_num bytes 4"

definition temp_f9_byte_to_c10 :: "u8 \<Rightarrow> int" where
  "temp_f9_byte_to_c10 b = (uint b div 2 - 64) * 10"

text \<open>C's integer division truncates towards zero.\<close>

definition c_div :: "int \<Rightarrow> int \<Rightarrow> int" where
  "c_div a b = sgn a * sgn b * (\<bar>a\<bar> div \<bar>b\<bar>)"

definition c10_to_setpoint_byte :: "16 word \<Rightarrow> u8" where
  "c10_to_setpoint_byte setpoint = word_of_int (c_div (sint setpoint + 3) 5 + 28)"

text \<open>
  \<open>round\<close> rounds a \<open>double\<close> to the nearest integer, halves away from zero. The setpoint
  is a rational here; the doubling, halving and multiplication by ten of \<open>tx_next\<close> are
  exact in \<open>double\<close> on every \<open>float\<close> setpoint.
\<close>

definition c_round :: "rat \<Rightarrow> int" where
  "c_round x = (if 0 \<le> x then \<lfloor>x + 1 / 2\<rfloor> else - \<lfloor>- x + 1 / 2\<rfloor>)"

text \<open>
  \<open>lroundf\<close> takes a \<open>float\<close>, so its \<open>double\<close> argument is first converted: rounded to
  24 significant bits, ties to the even significand. \<open>binary_exponent m\<close> is the \<open>e\<close> with
  \<open>2 ^ (e - 1) \<le> m < 2 ^ e\<close>. Infinities, NaN and the limits of the exponent range have no
  counterpart here.
\<close>

function bit_length :: "int \<Rightarrow> nat" where
  "bit_length n = (if n \<le> 0 then 0 else Suc (bit_length (n div 2)))"
  by pat_completeness auto
termination
  by (relation "measure nat") auto

declare bit_length.simps [simp del]

definition binary_exponent :: "rat \<Rightarrow> int" where
  "binary_exponent m =
    (if 1 \<le> m then int (bit_length \<lfloor>m\<rfloor>)
     else
       let l = bit_length \<lfloor>1 / m\<rfloor> in
       if m * 2 ^ (l - 1) = 1 then 2 - int l else 1 - int l)"

definition to_float :: "rat \<Rightarrow> rat" where
  "to_float x =
    (if x = 0 then 0
     else
       let m = \<bar>x\<bar>;
           e = binary_exponent m;
           ulp = (if 24 \<le> e then 2 ^ nat (e - 24) else 1 / 2 ^ nat (24 - e));
           q = \<lfloor>m / ulp\<rfloor>;
           r = m / ulp - of_int q;
           q' = (if 1 / 2 < r \<or> (r = 1 / 2 \<and> odd q) then q + 1 else q)
       in sgn x * of_int q' * ulp)"

definition lroundf :: "rat \<Rightarrow> int" where
  "lroundf x = c_round (to_float x)"

section \<open>DaikinS21: the session\<close>

text \<open>
  The enumerations \<open>DaikinClimateMode\<close> and \<open>DaikinFanMode\<close> are declared in \<open>s21.h\<close>;
  \<open>parse_ack\<close> and \<open>tx_next\<close> convert them from and to a payload byte with
  \<open>static_cast\<close>, so a mode is the byte that represents it.
\<close>

type_synonym DaikinClimateMode = u8
type_synonym DaikinFanMode = u8

record DaikinSettings =
  power_on :: bool
  mode :: DaikinClimateMode
  setpoint :: rat
  fan :: DaikinFanMode
  swing_v :: bool
  swing_h :: bool

datatype ReadyBit = ReadyBasic | ReadySwing | ReadyCompressor

text \<open>
  The query pool is the vector \<open>queries\<close>; the iterator \<open>current_query\<close> is its index,
  and \<open>queries.end()\<close> is the length. The sensor fields hold the value of the expression
  assigned to them. \<open>val_cache\<close> maps a response code to the payload last seen, the empty
  vector where the code has not been seen.
\<close>

record DaikinS21 =
  serial :: DaikinSerial
  queries :: "u8 list list"
  current_query :: nat
  tx_command :: "u8 list"
  activate_climate :: bool
  activate_swing_mode :: bool
  refresh_state :: bool
  active :: DaikinSettings
  pending :: DaikinSettings
  temp_inside :: int
  temp_outside :: int
  temp_coil :: int
  fan_rpm :: int
  compressor_hz :: int
  swing_vertical_angle :: int
  support_RG :: bool
  support_RH :: bool
  support_Ra :: bool
  ready :: "ReadyBit set"
  debug_protocol :: bool
  val_cache :: "u8 list \<Rightarrow> u8 list"

text \<open>Dereferencing an iterator: \<open>None\<close> at \<open>end()\<close>.\<close>

definition deref :: "'a list \<Rightarrow> nat \<Rightarrow> 'a option" where
  "deref xs i = (if i < length xs then Some (xs ! i) else None)"

text \<open>\<open>vector::erase\<close> of the element at an index.\<close>

definition erase :: "nat \<Rightarrow> 'a list \<Rightarrow> 'a list" where
  "erase i xs = take i xs @ drop (Suc i) xs"

text \<open>\<open>std::find_if\<close>: the index of the first element that satisfies the predicate, the
  length when there is none.\<close>

fun find_if :: "('a \<Rightarrow> bool) \<Rightarrow> 'a list \<Rightarrow> nat" where
  "find_if P [] = 0"
| "find_if P (x # xs) = (if P x then 0 else Suc (find_if P xs))"

definition refine_queries :: "DaikinS21 \<Rightarrow> DaikinS21" where
  "refine_queries s =
    (if support_Ra s \<and> support_RH s then
       (let f9 = find_if (\<lambda>query. query = cstr ''F9'') (queries s) in
        if f9 \<noteq> length (queries s) then s\<lparr>queries := erase f9 (queries s)\<rparr> else s)
     else s)"

definition send :: "s21_consts \<Rightarrow> u32 \<Rightarrow> u8 list option \<Rightarrow> DaikinS21 \<Rightarrow> DaikinS21" where
  "send k now payload s = s\<lparr>serial := snd (send_frame k now (tx_command s) payload (serial s))\<rparr>"

definition climate_payload :: "DaikinSettings \<Rightarrow> u8 list" where
  "climate_payload p =
    [if power_on p then ch CHR ''1'' else ch CHR ''0'',
     mode p,
     c10_to_setpoint_byte
       (word_of_int (lroundf (of_int (c_round (setpoint p * 2)) / 2 * 10))),
     fan p]"

definition swing_payload :: "DaikinSettings \<Rightarrow> u8 list" where
  "swing_payload p =
    [word_of_int (uint (ch CHR ''0'')
                  + (if swing_h p \<and> swing_v p then 4 else 0)
                  + (if swing_h p then 2 else 0)
                  + (if swing_v p then 1 else 0)),
     if swing_v p \<or> swing_h p then ch CHR ''?'' else ch CHR ''0'',
     ch CHR ''0'',
     ch CHR ''0'']"

text \<open>\<open>tx_next\<close> is \<open>None\<close> where it dereferences \<open>queries.begin()\<close> of an empty pool.\<close>

definition tx_next :: "s21_consts \<Rightarrow> u32 \<Rightarrow> DaikinS21 \<Rightarrow> DaikinS21 option" where
  "tx_next k now s =
    (if activate_climate s then
       Some (send k now (Some (climate_payload (pending s))) (s\<lparr>tx_command := cstr ''D1''\<rparr>))
     else if activate_swing_mode s then
       Some (send k now (Some (swing_payload (pending s))) (s\<lparr>tx_command := cstr ''D5''\<rparr>))
     else if current_query s \<noteq> length (queries s) then
       do { q \<leftarrow> deref (queries s) (current_query s);
            Some (send k now None (s\<lparr>tx_command := q\<rparr>)) }
     else if refresh_state s then
       (let s1 = refine_queries (s\<lparr>refresh_state := False\<rparr>);
            s2 = s1\<lparr>current_query := 0\<rparr> in
        do { q \<leftarrow> deref (queries s2) (current_query s2);
             Some (send k now None (s2\<lparr>tx_command := q\<rparr>)) })
     else Some s)"

text \<open>
  The tail of \<open>parse_ack\<close>: with \<open>debug_protocol\<close> set, the payload replaces the cached
  one when it differs. The key is the \<open>rcode\<close> buffer read as a C string, which needs its
  terminating NUL.
\<close>

definition debug_diff :: "u8 list \<Rightarrow> u8 list \<Rightarrow> DaikinS21 \<Rightarrow> DaikinS21 option" where
  "debug_diff rcode payload s =
    (if debug_protocol s then
       (if 0 \<notin> set rcode then None
        else
          let key = takeWhile (\<lambda>c. c \<noteq> 0) rcode in
          if val_cache s key \<noteq> payload
          then Some (s\<lparr>val_cache := (val_cache s)(key := payload)\<rparr>)
          else Some s)
     else Some s)"

definition decode_G :: "u8 list \<Rightarrow> u8 list \<Rightarrow> DaikinS21 \<Rightarrow> DaikinS21 option" where
  "decode_G rcode payload s =
    do {
      c1 \<leftarrow> byte_at rcode 1;
      if c1 = ch CHR ''1'' then
        do {
          p0 \<leftarrow> byte_at payload 0;
          p1 \<leftarrow> byte_at payload 1;
          p2 \<leftarrow> byte_at payload 2;
          f \<leftarrow> (if support_RG s = False then byte_at payload 3 else Some (fan (active s)));
          Some (s\<lparr>active := (active s)\<lparr>power_on := (p0 = ch CHR ''1''),
                                       mode := p1,
                                       setpoint := of_int ((uint p2 - 28) * 5),
                                       fan := f\<rparr>,
                  ready := insert ReadyBasic (ready s)\<rparr>)
        }
      else if c1 = ch CHR ''5'' then
        do {
          p0 \<leftarrow> byte_at payload 0;
          debug_diff rcode payload
            (s\<lparr>active := (active s)\<lparr>swing_v := (p0 AND 1 \<noteq> 0), swing_h := (p0 AND 2 \<noteq> 0)\<rparr>,
               ready := insert ReadySwing (ready s)\<rparr>)
        }
      else if c1 = ch CHR ''8'' then debug_diff rcode payload s
      else if c1 = ch CHR ''9'' then
        do {
          p0 \<leftarrow> byte_at payload 0;
          p1 \<leftarrow> byte_at payload 1;
          debug_diff rcode payload
            (s\<lparr>temp_inside := temp_f9_byte_to_c10 p0, temp_outside := temp_f9_byte_to_c10 p1\<rparr>)
        }
      else debug_diff rcode payload s
    }"

definition decode_S :: "u8 list \<Rightarrow> u8 list \<Rightarrow> DaikinS21 \<Rightarrow> DaikinS21 option" where
  "decode_S rcode payload s =
    do {
      c1 \<leftarrow> byte_at rcode 1;
      let payload_len = length payload in
      if c1 = ch CHR ''B'' then Some s
      else if c1 = ch CHR ''G'' then
        do { p0 \<leftarrow> byte_at payload 0;
             Some (s\<lparr>active := (active s)\<lparr>fan := p0\<rparr>, support_RG := True\<rparr>) }
      else if c1 = ch CHR ''H'' then
        do { v \<leftarrow> temp_bytes_to_c10 payload;
             Some (s\<lparr>temp_inside := v, support_RH := True\<rparr>) }
      else if c1 = ch CHR ''I'' then
        do { v \<leftarrow> temp_bytes_to_c10 payload;
             Some (s\<lparr>temp_coil := v\<rparr>) }
      else if c1 = ch CHR ''a'' then
        do { v \<leftarrow> temp_bytes_to_c10 payload;
             Some (s\<lparr>temp_outside := v, support_Ra := True\<rparr>) }
      else if c1 = ch CHR ''L'' then
        do { v \<leftarrow> bytes_to_num payload payload_len;
             Some (s\<lparr>fan_rpm := v * 10\<rparr>) }
      else if c1 = ch CHR ''d'' then
        do { v \<leftarrow> bytes_to_num payload payload_len;
             Some (s\<lparr>compressor_hz := v, ready := insert ReadyCompressor (ready s)\<rparr>) }
      else if c1 = ch CHR ''C'' then
        do { v \<leftarrow> bytes_to_num payload payload_len;
             Some (s\<lparr>active := (active s)\<lparr>setpoint := of_int v\<rparr>\<rparr>) }
      else if c1 = ch CHR ''N'' then
        do { v \<leftarrow> bytes_to_num payload 4;
             Some (s\<lparr>swing_vertical_angle := v\<rparr>) }
      else debug_diff rcode payload s
    }"

definition decode_D :: "u8 list \<Rightarrow> DaikinS21 \<Rightarrow> DaikinS21 option" where
  "decode_D rcode s =
    do {
      c1 \<leftarrow> byte_at rcode 1;
      let s1 = (if c1 = ch CHR ''1'' then s\<lparr>activate_climate := False\<rparr>
                else if c1 = ch CHR ''5'' then s\<lparr>activate_swing_mode := False\<rparr>
                else s) in
      Some (s1\<lparr>refresh_state := True\<rparr>)
    }"

definition dispatch :: "u8 list \<Rightarrow> u8 list \<Rightarrow> DaikinS21 \<Rightarrow> DaikinS21 option" where
  "dispatch rcode payload s =
    do {
      c0 \<leftarrow> byte_at rcode 0;
      if c0 = ch CHR ''G'' then decode_G rcode payload s
      else if c0 = ch CHR ''S'' then decode_S rcode payload s
      else if c0 = ch CHR ''M'' then debug_diff rcode payload s
      else if c0 = ch CHR ''D'' then decode_D rcode s
      else debug_diff rcode payload s
    }"

text \<open>The zero-initialised buffer \<open>rcode\<close> after \<open>rcode_len\<close> bytes were copied into it.\<close>

definition rcode_buf :: "s21_consts \<Rightarrow> nat \<Rightarrow> u8 list \<Rightarrow> u8 list" where
  "rcode_buf k rcode_len src =
    take rcode_len src @ replicate (S21_MAX_COMMAND_SIZE k + 1 - rcode_len) 0"

text \<open>
  \<open>parse_ack\<close> is \<open>None\<close> where the C++ has undefined behaviour: a copy that writes past
  \<open>rcode\<close> or \<open>payload\<close>, a response shorter than the command (the unsigned
  \<open>payload_len\<close> wraps and the copies run off the vector), incrementing the iterator at
  \<open>end()\<close>, and decoding a payload byte that was never written.
\<close>

definition parse_ack :: "s21_consts \<Rightarrow> DaikinS21 \<Rightarrow> DaikinS21 option" where
  "parse_ack k s =
    (let rcode_len = strlen (tx_command s);
         resp = response (serial s) in
     if rcode_len > S21_MAX_COMMAND_SIZE k + 1 then None
     else if resp = [] then
       dispatch (rcode_buf k rcode_len (tx_command s)) [] s
     else if length resp < rcode_len then None
     else
       let payload_len = length resp - rcode_len;
           payload = drop rcode_len resp in
       if payload_len > S21_PAYLOAD_SIZE then None
       else if current_query s \<ge> length (queries s) then None
       else dispatch (rcode_buf k rcode_len resp) payload
              (s\<lparr>current_query := Suc (current_query s)\<rparr>))"

text \<open>\<open>handle_nak\<close> dereferences \<open>current_query\<close> before anything else: \<open>None\<close> when the
  iterator is at \<open>end()\<close>.\<close>

definition handle_nak :: "s21_consts \<Rightarrow> DaikinS21 \<Rightarrow> DaikinS21 option" where
  "handle_nak k s =
    do {
      q \<leftarrow> deref (queries s) (current_query s);
      if tx_command s = q then
        (let index = current_query s in
         Some (s\<lparr>queries := erase (current_query s) (queries s), current_query := index\<rparr>))
      else parse_ack k s
    }"

definition default_queries :: "u8 list list" where
  "default_queries = map cstr [''F1'', ''F5'', ''F9'', ''Rd'', ''RH'', ''RI'', ''Ra'', ''RL'', ''RG'']"

definition setup_s21 :: "DaikinS21 \<Rightarrow> DaikinS21" where
  "setup_s21 s = s\<lparr>queries := default_queries, current_query := 0\<rparr>"

definition loop :: "s21_consts \<Rightarrow> u32 \<Rightarrow> DaikinS21 \<Rightarrow> DaikinS21 option" where
  "loop k now s =
    do {
      (result, ser) \<leftarrow> service k now (serial s);
      let s1 = s\<lparr>serial := ser\<rparr> in
      case result of
        Ack \<Rightarrow> parse_ack k s1
      | Result.Idle \<Rightarrow> tx_next k now s1
      | Nak \<Rightarrow> handle_nak k s1
      | Error \<Rightarrow> Some (s1\<lparr>current_query := length (queries s1),
                            refresh_state := True,
                            activate_climate := False,
                            activate_swing_mode := False\<rparr>)
      | Timeout \<Rightarrow> Some s1
      | Busy \<Rightarrow> Some s1
    }"

definition update :: "DaikinS21 \<Rightarrow> DaikinS21" where
  "update s = s\<lparr>refresh_state := True\<rparr>"

definition set_daikin_climate_settings ::
    "bool \<Rightarrow> DaikinClimateMode \<Rightarrow> rat \<Rightarrow> DaikinFanMode \<Rightarrow> DaikinS21 \<Rightarrow> DaikinS21" where
  "set_daikin_climate_settings p m sp f s =
    s\<lparr>pending := (pending s)\<lparr>power_on := p, mode := m, setpoint := sp, fan := f\<rparr>,
      activate_climate := True\<rparr>"

definition set_swing_settings :: "bool \<Rightarrow> bool \<Rightarrow> DaikinS21 \<Rightarrow> DaikinS21" where
  "set_swing_settings v h s =
    s\<lparr>pending := (pending s)\<lparr>swing_v := v, swing_h := h\<rparr>, activate_swing_mode := True\<rparr>"

section \<open>The host's calls\<close>

text \<open>
  What can happen to a session between and at ticks: the host calls \<open>loop\<close> at a clock
  reading, bytes arrive on the receiving UART, the host calls one of the setters or
  \<open>update\<close>.
\<close>

datatype event =
    Tick u32
  | Receive "u8 list"
  | SetClimate bool DaikinClimateMode rat DaikinFanMode
  | SetSwing bool bool
  | Update

definition receive :: "u8 list \<Rightarrow> DaikinS21 \<Rightarrow> DaikinS21" where
  "receive bs s = s\<lparr>serial := (serial s)\<lparr>rx_uart := rx_uart (serial s) @ bs\<rparr>\<rparr>"

fun step :: "s21_consts \<Rightarrow> event \<Rightarrow> DaikinS21 \<Rightarrow> DaikinS21 option" where
  "step k (Tick now) s = loop k now s"
| "step k (Receive bs) s = Some (receive bs s)"
| "step k (SetClimate p m sp f) s = Some (set_daikin_climate_settings p m sp f s)"
| "step k (SetSwing v h) s = Some (set_swing_settings v h s)"
| "step k Update s = Some (update s)"

fun run :: "s21_consts \<Rightarrow> event list \<Rightarrow> DaikinS21 \<Rightarrow> DaikinS21 option" where
  "run k [] s = Some s"
| "run k (e # es) s = (case step k e s of None \<Rightarrow> None | Some s' \<Rightarrow> run k es s')"

section \<open>The specification's vocabulary\<close>

text \<open>The 8-bit truncated sum of a byte sequence, as the specification words it.\<close>

definition sum8 :: "u8 list \<Rightarrow> u8" where
  "sum8 bs = of_nat (sum_list (map unat bs))"

definition payload_bytes :: "u8 list option \<Rightarrow> u8 list" where
  "payload_bytes payload = (case payload of None \<Rightarrow> [] | Some p \<Rightarrow> p)"

text \<open>The checksum of the specification: the truncated sum, \<open>ENQ\<close> where the sum is \<open>STX\<close>.\<close>

definition spec_checksum :: "u8 list \<Rightarrow> u8" where
  "spec_checksum body = (if sum8 body = STX then ENQ else sum8 body)"

text \<open>The wire form of the specification: \<open>STX\<close>, command, optional payload, checksum, \<open>ETX\<close>.\<close>

definition wire_frame :: "u8 list \<Rightarrow> u8 list option \<Rightarrow> u8 list" where
  "wire_frame cmd payload =
     [STX] @ cmd @ payload_bytes payload @ [spec_checksum (cmd @ payload_bytes payload)] @ [ETX]"

text \<open>
  The encoding that \<open>bytes_to_num\<close> decodes, as the specification describes it: the ASCII
  digits of the magnitude, ones first, then a sign byte. The source has no encoder.
\<close>

definition ascii_digit :: "int \<Rightarrow> u8" where
  "ascii_digit d = word_of_int (uint (ch CHR ''0'') + d)"

definition num_encoding :: "int \<Rightarrow> u8 \<Rightarrow> u8 list" where
  "num_encoding n sign =
     [ascii_digit (\<bar>n\<bar> mod 10), ascii_digit (\<bar>n\<bar> div 10 mod 10),
      ascii_digit (\<bar>n\<bar> div 100 mod 10), sign]"

section \<open>Example inputs\<close>

definition example_consts :: s21_consts where
  "example_consts = \<lparr>S21_MAX_COMMAND_SIZE = 4, S21_RESPONSE_TURNAROUND = 35,
                      S21_RESPONSE_TIMEOUT = 250, S21_ERROR_TIMEOUT = 3000\<rparr>"

definition idle_serial :: DaikinSerial where
  "idle_serial = \<lparr>comm_state = Idle, cooldown_length = 0, last_event_time = 0,
                   response = [], tx_uart = [], rx_uart = []\<rparr>"

definition blank_settings :: DaikinSettings where
  "blank_settings = \<lparr>power_on = False, mode = ch CHR ''0'', setpoint = 23, fan = ch CHR ''A'',
                      swing_v = False, swing_h = False\<rparr>"

definition blank_session :: DaikinS21 where
  "blank_session =
     \<lparr>serial = idle_serial, queries = [], current_query = 0, tx_command = [],
      activate_climate = False, activate_swing_mode = False, refresh_state = False,
      active = blank_settings, pending = blank_settings,
      temp_inside = 0, temp_outside = 0, temp_coil = 0, fan_rpm = 0, compressor_hz = 0,
      swing_vertical_angle = 0, support_RG = False, support_RH = False, support_Ra = False,
      ready = {}, debug_protocol = False, val_cache = (\<lambda>_. [])\<rparr>"

text \<open>The reply of the end-to-end scenario as the specification lists it, with the response
  code \<open>F1\<close>, and the reply a unit gives to the query \<open>F1\<close>, with the response code \<open>G1\<close>.\<close>

definition f1_reply :: "u8 list" where
  "f1_reply = [ACK, STX, ch CHR ''F'', ch CHR ''1'', ch CHR ''1'', ch CHR ''A'', ch CHR ''0'',
               ch CHR ''3'', 76, ETX]"

definition g1_reply :: "u8 list" where
  "g1_reply = [ACK, STX, ch CHR ''G'', ch CHR ''1'', ch CHR ''1'', ch CHR ''A'', ch CHR ''0'',
               ch CHR ''3'', 77, ETX]"

text \<open>A session that has sent the command \<open>D1\<close> while its cursor is at the end of the pool:
  the first query is answered by a stray byte, the host requests a climate change, and the
  command goes out once the error cooldown has passed.\<close>

definition command_after_error :: "event list" where
  "command_after_error =
     [Tick 0, Receive [0], Tick 1, SetClimate True (ch CHR ''3'') 23 (ch CHR ''A''), Tick 5000]"

text \<open>Sessions for the examples: one waiting for the answer to \<open>F1\<close> with a swing
  activation pending, one with a climate change requested in the middle of a scan, and one
  holding a complete \<open>G1\<close> answer.\<close>

definition waiting_session :: DaikinS21 where
  "waiting_session = (setup_s21 blank_session)\<lparr>serial := idle_serial\<lparr>comm_state := QueryAck\<rparr>,
                        tx_command := cstr ''F1'', activate_swing_mode := True\<rparr>"

definition climate_request :: DaikinS21 where
  "climate_request =
     set_daikin_climate_settings True (ch CHR ''3'') 25 (ch CHR ''A'')
       ((setup_s21 blank_session)\<lparr>current_query := 4\<rparr>)"

definition g1_answered :: DaikinS21 where
  "g1_answered = (setup_s21 blank_session)\<lparr>serial := idle_serial\<lparr>response := cstr ''G1'' @ cstr ''1A03''\<rparr>,
                    tx_command := cstr ''F1''\<rparr>"

text \<open>The climate request with a swing change requested as well, and a session that has
  already seen the fan answer \<open>SG\<close>.\<close>

definition swing_and_climate_request :: DaikinS21 where
  "swing_and_climate_request = set_swing_settings True False climate_request"

definition g1_expected :: DaikinS21 where
  "g1_expected = (setup_s21 blank_session)\<lparr>support_RG := True\<rparr>"

section \<open>Checksums\<close>

lemma sum8_sum_list: "sum8 bs = sum_list bs"
  by (induction bs) (simp_all add: sum8_def)

lemma sum8_append: "sum8 (xs @ ys) = sum8 xs + sum8 ys"
  by (simp add: sum8_sum_list)

lemma mod_2_32_256: "((a::int) mod 4294967296 + b) mod 256 = (a + b) mod 256"
proof -
  have d: "(256::int) dvd 4294967296" by simp
  have "(a mod 4294967296 + b) mod 256 = (a mod 4294967296 mod 256 + b) mod 256"
    by (simp only: mod_add_left_eq)
  also have "\<dots> = (a mod 256 + b) mod 256"
    by (simp only: mod_mod_cancel [OF d])
  also have "\<dots> = (a + b) mod 256"
    by (simp only: mod_add_left_eq)
  finally show ?thesis .
qed

lemma ucast_step: "(ucast ((a::u32) + ucast (b::u8)) :: u8) = ucast a + b"
proof -
  have d: "(256::int) dvd 4294967296" by simp
  show ?thesis
    apply transfer
    apply (simp add: take_bit_eq_mod mod_mod_cancel [OF d] mod_simps mod_2_32_256)
    done
qed

lemma foldl_acc32:
  "(ucast (foldl (\<lambda>(acc :: u32) b. acc + ucast b) a bs) :: u8) = ucast a + sum_list bs"
  by (induction bs arbitrary: a) (simp_all add: ucast_step add.assoc)

lemma accumulate_0U_sum: "accumulate_0U bs = sum8 bs"
  by (simp add: accumulate_0U_def foldl_acc32 sum8_sum_list)

lemma accumulate_u8_sum: "accumulate_u8 bs init = init + sum8 bs"
  unfolding accumulate_u8_def sum8_sum_list
  by (induction bs arbitrary: init) (simp_all add: add.assoc)

lemma drain_empty: "drain bs = []"
  by (induction bs) simp_all

lemma tx_checksum_spec: "tx_checksum cmd payload = spec_checksum (cmd @ payload_bytes payload)"
  by (cases payload)
     (simp_all add: tx_checksum_def spec_checksum_def payload_bytes_def strlen_def
        accumulate_0U_sum accumulate_u8_sum sum8_append Let_def)

lemma spec_checksum_accepted:
  "sum8 body = spec_checksum body \<or> (sum8 body = STX \<and> spec_checksum body = ENQ)"
  by (simp add: spec_checksum_def)

section \<open>Sending a frame\<close>

lemma send_frame_busy: "comm_state s \<noteq> Idle \<Longrightarrow> send_frame k now cmd payload s = (Busy, s)"
  by (simp add: send_frame_def)

lemma send_frame_error:
  "comm_state s = Idle \<Longrightarrow> strlen cmd > S21_MAX_COMMAND_SIZE k \<Longrightarrow>
   send_frame k now cmd payload s = (Error, s)"
  by (simp add: send_frame_def Let_def)

lemma send_frame_ack:
  "comm_state s = Idle \<Longrightarrow> strlen cmd \<le> S21_MAX_COMMAND_SIZE k \<Longrightarrow>
   send_frame k now cmd payload s =
     (Ack, s\<lparr>comm_state := (if payload \<noteq> None then CommandAck else QueryAck),
             last_event_time := now, response := [],
             tx_uart := tx_uart s @ wire_frame cmd payload, rx_uart := []\<rparr>)"
  by (cases payload)
     (simp_all add: send_frame_def Let_def flush_input_def drain_empty tx_checksum_spec
        wire_frame_def payload_bytes_def strlen_def)

text \<open>
  C3. \<open>send_frame\<close> returns \<open>Busy\<close> and changes nothing unless the link is \<open>Idle\<close>; on an
  idle link it returns \<open>Error\<close> for a command longer than \<open>S21_MAX_COMMAND_SIZE\<close>; otherwise
  it clears the response buffer, drains the unread input, writes
  \<open>STX\<close>, command, payload, checksum, \<open>ETX\<close>, records the time, moves to \<open>CommandAck\<close> with a
  payload and to \<open>QueryAck\<close> without one, and returns \<open>Ack\<close>.
\<close>

theorem send_frame_contract:
  "(comm_state s \<noteq> Idle \<longrightarrow> send_frame k now cmd payload s = (Busy, s)) \<and>
   (comm_state s = Idle \<and> strlen cmd > S21_MAX_COMMAND_SIZE k \<longrightarrow>
      send_frame k now cmd payload s = (Error, s)) \<and>
   (comm_state s = Idle \<and> strlen cmd \<le> S21_MAX_COMMAND_SIZE k \<longrightarrow>
      send_frame k now cmd payload s =
        (Ack, s\<lparr>comm_state := (if payload \<noteq> None then CommandAck else QueryAck),
                last_event_time := now, response := [],
                tx_uart := tx_uart s @ wire_frame cmd payload, rx_uart := []\<rparr>))"
  using send_frame_busy send_frame_error send_frame_ack by blast

theorem send_frame_contract_witness:
  "send_frame example_consts 7 (cstr ''F1'') None (idle_serial\<lparr>comm_state := Cooldown\<rparr>) =
     (Busy, idle_serial\<lparr>comm_state := Cooldown\<rparr>) \<and>
   send_frame example_consts 7 (cstr ''FU0F5'') None idle_serial = (Error, idle_serial) \<and>
   send_frame example_consts 7 (cstr ''F1'') None (idle_serial\<lparr>rx_uart := [ACK]\<rparr>) =
     (Ack, \<lparr>comm_state = QueryAck, cooldown_length = 0, last_event_time = 7, response = [],
            tx_uart = [2, 70, 49, 119, 3], rx_uart = []\<rparr>)"
  using send_frame_contract [of "idle_serial\<lparr>comm_state := Cooldown\<rparr>" example_consts 7 "cstr ''F1''" None]
    send_frame_contract [of idle_serial example_consts 7 "cstr ''FU0F5''" None]
    send_frame_contract [of "idle_serial\<lparr>rx_uart := [ACK]\<rparr>" example_consts 7 "cstr ''F1''" None]
  by (simp add: idle_serial_def example_consts_def strlen_def cstr_def ch_def wire_frame_def
        payload_bytes_def spec_checksum_def sum8_def STX_def ETX_def)

section \<open>Receiving a frame\<close>

lemma handle_rx_body_byte:
  "comm_state s = QueryEtx \<Longrightarrow> byte \<noteq> ETX \<Longrightarrow>
   length (response s) < S21_MAX_COMMAND_SIZE k + S21_PAYLOAD_SIZE + 1 \<Longrightarrow>
   handle_rx k byte s = Some (Busy, s\<lparr>response := response s @ [byte]\<rparr>)"
  by (simp add: handle_rx_def Let_def)

lemma rx_loop_body:
  "comm_state s = QueryEtx \<Longrightarrow> ETX \<notin> set bs \<Longrightarrow>
   length (response s) + length bs \<le> S21_MAX_COMMAND_SIZE k + S21_PAYLOAD_SIZE + 1 \<Longrightarrow>
   rx_loop k now (bs @ rest) (s\<lparr>last_event_time := now\<rparr>) =
   rx_loop k now rest (s\<lparr>last_event_time := now, response := response s @ bs\<rparr>)"
proof (induction bs arbitrary: s)
  case Nil
  then show ?case by simp
next
  case (Cons b bs)
  let ?s1 = "s\<lparr>response := response s @ [b]\<rparr>"
  have ne: "b \<noteq> ETX"
    using Cons.prems by auto
  have step: "handle_rx k b (s\<lparr>last_event_time := now\<rparr>) = Some (Busy, ?s1\<lparr>last_event_time := now\<rparr>)"
    using Cons.prems ne by (simp add: handle_rx_body_byte)
  have "rx_loop k now ((b # bs) @ rest) (s\<lparr>last_event_time := now\<rparr>) =
        rx_loop k now (bs @ rest) (?s1\<lparr>last_event_time := now\<rparr>)"
    using step by simp
  also have "\<dots> = rx_loop k now rest (?s1\<lparr>last_event_time := now, response := response ?s1 @ bs\<rparr>)"
    using Cons.prems by (intro Cons.IH) simp_all
  finally show ?case by simp
qed

lemma handle_rx_etx:
  "comm_state s = QueryEtx \<Longrightarrow> response s = body @ [c] \<Longrightarrow>
   handle_rx k ETX s =
     (if sum8 body = c \<or> (sum8 body = STX \<and> c = ENQ)
      then Some (Ack, s\<lparr>comm_state := Cooldown, cooldown_length := S21_RESPONSE_TURNAROUND k,
                         response := body, tx_uart := tx_uart s @ [ACK]\<rparr>)
      else Some (Error, s\<lparr>comm_state := Cooldown, cooldown_length := S21_ERROR_TIMEOUT k,
                           response := body\<rparr>))"
  by (simp add: handle_rx_def Let_def accumulate_0U_sum enter_cooldown_def)

lemma rx_loop_frame:
  assumes st: "comm_state r = QueryAck" and empty: "response r = []"
    and noetx: "ETX \<notin> set body" and chk: "spec_checksum body \<noteq> ETX"
    and len: "length body \<le> S21_MAX_COMMAND_SIZE k + S21_PAYLOAD_SIZE"
  shows "rx_loop k now (ACK # [STX] @ body @ [spec_checksum body] @ [ETX]) r =
         Some (Ack, [], r\<lparr>comm_state := Cooldown, cooldown_length := S21_RESPONSE_TURNAROUND k,
                          last_event_time := now, response := body,
                          tx_uart := tx_uart r @ [ACK]\<rparr>)"
proof -
  let ?q = "r\<lparr>comm_state := QueryEtx\<rparr>"
  let ?bs = "body @ [spec_checksum body]"
  have a: "handle_rx k ACK (r\<lparr>last_event_time := now\<rparr>) =
           Some (Busy, r\<lparr>comm_state := QueryStx, last_event_time := now\<rparr>)"
    using st by (simp add: handle_rx_def)
  have b: "handle_rx k STX (r\<lparr>comm_state := QueryStx, last_event_time := now\<rparr>) =
           Some (Busy, ?q\<lparr>last_event_time := now\<rparr>)"
    by (simp add: handle_rx_def)
  have "rx_loop k now (ACK # [STX] @ ?bs @ [ETX]) r =
        rx_loop k now (?bs @ [ETX]) (?q\<lparr>last_event_time := now\<rparr>)"
    using a b by simp
  also have "\<dots> = rx_loop k now [ETX] (?q\<lparr>last_event_time := now, response := response ?q @ ?bs\<rparr>)"
    using noetx chk len empty by (intro rx_loop_body) simp_all
  also have "\<dots> = Some (Ack, [], r\<lparr>comm_state := Cooldown, cooldown_length := S21_RESPONSE_TURNAROUND k,
                          last_event_time := now, response := body,
                          tx_uart := tx_uart r @ [ACK]\<rparr>)"
    using empty spec_checksum_accepted [of body]
    by (simp add: handle_rx_etx [where body = body and c = "spec_checksum body"])
  finally show ?thesis by simp
qed

text \<open>
  C1 (amended). For every command of length at most \<open>S21_MAX_COMMAND_SIZE\<close> and every 4-byte
  payload such that no byte of the command or the payload, nor the checksum byte, is \<open>ETX\<close>:
  the bytes \<open>send_frame\<close> emits, fed after an \<open>ACK\<close> through the receive loop of a transport
  waiting in \<open>QueryAck\<close>, leave command and payload in the response buffer and end with \<open>Ack\<close>.
\<close>

theorem frame_round_trip:
  assumes "comm_state t = Idle" and "strlen cmd \<le> S21_MAX_COMMAND_SIZE k"
    and "length payload = S21_PAYLOAD_SIZE"
    and "ETX \<notin> set (cmd @ payload)" and "spec_checksum (cmd @ payload) \<noteq> ETX"
    and "comm_state r = QueryAck" and "response r = []"
  shows "rx_loop k now' (ACK # drop (length (tx_uart t))
            (tx_uart (snd (send_frame k now cmd (Some payload) t)))) r =
         Some (Ack, [], r\<lparr>comm_state := Cooldown, cooldown_length := S21_RESPONSE_TURNAROUND k,
                          last_event_time := now', response := cmd @ payload,
                          tx_uart := tx_uart r @ [ACK]\<rparr>)"
proof -
  have "drop (length (tx_uart t)) (tx_uart (snd (send_frame k now cmd (Some payload) t))) =
        [STX] @ (cmd @ payload) @ [spec_checksum (cmd @ payload)] @ [ETX]"
    using assms(1,2) by (simp add: send_frame_ack wire_frame_def payload_bytes_def)
  moreover have "length (cmd @ payload) \<le> S21_MAX_COMMAND_SIZE k + S21_PAYLOAD_SIZE"
    using assms(2,3) by (simp add: strlen_def)
  ultimately show ?thesis
    using rx_loop_frame [OF assms(6,7,4,5), of k now'] by simp
qed

theorem frame_round_trip_witness:
  "comm_state idle_serial = Idle \<and> strlen (cstr ''D1'') \<le> S21_MAX_COMMAND_SIZE example_consts \<and>
   length (cstr ''13NA'') = S21_PAYLOAD_SIZE \<and>
   ETX \<notin> set (cstr ''D1'' @ cstr ''13NA'') \<and> spec_checksum (cstr ''D1'' @ cstr ''13NA'') \<noteq> ETX \<and>
   rx_loop example_consts 9 (ACK # drop (length (tx_uart idle_serial))
      (tx_uart (snd (send_frame example_consts 0 (cstr ''D1'') (Some (cstr ''13NA'')) idle_serial))))
      (idle_serial\<lparr>comm_state := QueryAck\<rparr>) =
     Some (Ack, [], idle_serial\<lparr>comm_state := Cooldown, cooldown_length := 35,
                      last_event_time := 9, response := cstr ''D1'' @ cstr ''13NA'',
                      tx_uart := [ACK]\<rparr>)"
proof -
  have h: "comm_state idle_serial = Idle" "strlen (cstr ''D1'') \<le> S21_MAX_COMMAND_SIZE example_consts"
    "length (cstr ''13NA'') = S21_PAYLOAD_SIZE"
    "ETX \<notin> set (cstr ''D1'' @ cstr ''13NA'')" "spec_checksum (cstr ''D1'' @ cstr ''13NA'') \<noteq> ETX"
    "comm_state (idle_serial\<lparr>comm_state := QueryAck\<rparr>) = QueryAck"
    "response (idle_serial\<lparr>comm_state := QueryAck\<rparr>) = []"
    by (simp_all add: idle_serial_def example_consts_def strlen_def cstr_def ch_def
          S21_PAYLOAD_SIZE_def ETX_def STX_def spec_checksum_def sum8_def)
  show ?thesis
    using h frame_round_trip [OF h, of 9 0]
    by (simp add: example_consts_def idle_serial_def)
qed

theorem frame_round_trip_counterexample:
  "comm_state idle_serial = Idle \<and> strlen (cstr ''F1'') \<le> S21_MAX_COMMAND_SIZE example_consts \<and>
   length (cstr ''   ,'') = 4 \<and>
   map_option fst (rx_loop example_consts 0
      (ACK # drop (length (tx_uart idle_serial))
         (tx_uart (snd (send_frame example_consts 0 (cstr ''F1'') (Some (cstr ''   ,'')) idle_serial))))
      (idle_serial\<lparr>comm_state := QueryAck\<rparr>)) = Some Error"
  by (simp add: send_frame_ack idle_serial_def example_consts_def strlen_def cstr_def ch_def
      wire_frame_def payload_bytes_def spec_checksum_def sum8_def handle_rx_def
      S21_PAYLOAD_SIZE_def STX_def ETX_def ENQ_def ACK_def NAK_def enter_cooldown_def
      accumulate_0U_def Let_def)

text \<open>
  C2 (amended). When the truncated sum of command and payload is \<open>STX\<close>, \<open>send_frame\<close>
  writes \<open>ENQ\<close> as the checksum byte; and \<open>handle_rx\<close> accepts a frame whose last byte is
  \<open>ENQ\<close> exactly when the sum it recomputes over the body is \<open>STX\<close> or is \<open>ENQ\<close> itself.
\<close>

theorem checksum_escape:
  "(comm_state s = Idle \<and> strlen cmd \<le> S21_MAX_COMMAND_SIZE k \<and>
      sum8 (cmd @ payload_bytes payload) = STX \<longrightarrow>
      tx_uart (snd (send_frame k now cmd payload s)) =
        tx_uart s @ [STX] @ cmd @ payload_bytes payload @ [ENQ] @ [ETX]) \<and>
   (comm_state r = QueryEtx \<and> response r = body @ [ENQ] \<longrightarrow>
      (map_option fst (handle_rx k ETX r) = Some Ack) = (sum8 body = STX \<or> sum8 body = ENQ))"
  by (auto simp add: send_frame_ack wire_frame_def spec_checksum_def handle_rx_etx)

theorem checksum_escape_witness:
  "sum8 (cstr ''F1'' @ payload_bytes (Some (cstr ''   +''))) = STX \<and>
   tx_uart (snd (send_frame example_consts 0 (cstr ''F1'') (Some (cstr ''   +'')) idle_serial)) =
     [STX] @ cstr ''F1'' @ cstr ''   +'' @ [ENQ] @ [ETX] \<and>
   sum8 (cstr ''G1   *'') = STX \<and>
   map_option fst (handle_rx example_consts ETX
      (idle_serial\<lparr>comm_state := QueryEtx, response := cstr ''G1   *'' @ [ENQ]\<rparr>)) = Some Ack"
  using checksum_escape [of idle_serial "cstr ''F1''" example_consts "Some (cstr ''   +'')" 0
      "idle_serial\<lparr>comm_state := QueryEtx, response := cstr ''G1   *'' @ [ENQ]\<rparr>" "cstr ''G1   *''"]
  by (simp add: idle_serial_def example_consts_def strlen_def cstr_def ch_def payload_bytes_def
        sum8_def STX_def ENQ_def)

theorem checksum_escape_counterexample:
  "comm_state (idle_serial\<lparr>comm_state := QueryEtx, response := [1, 4] @ [ENQ]\<rparr>) = QueryEtx \<and>
   map_option fst (handle_rx example_consts ETX
      (idle_serial\<lparr>comm_state := QueryEtx, response := [1, 4] @ [ENQ]\<rparr>)) = Some Ack \<and>
   sum8 [1, 4] \<noteq> STX"
  by (simp add: handle_rx_etx sum8_def idle_serial_def STX_def ENQ_def)

section \<open>The numeric decoder\<close>

lemma uint_ascii_digit:
  assumes "0 \<le> d" and "d \<le> 9"
  shows "uint (ascii_digit d) = 48 + d"
proof -
  have z: "uint (ch CHR ''0'') = 48" by (simp add: ch_def)
  have "uint (word_of_int (48 + d) :: u8) = (48 + d) mod 2 ^ LENGTH(8)"
    by (rule uint_word_of_int)
  also have "\<dots> = 48 + d" using assms by simp
  finally show ?thesis by (simp only: ascii_digit_def z)
qed

lemma digits_sum:
  assumes "0 \<le> (m::int)" and "m \<le> 999"
  shows "m mod 10 + (m div 10 mod 10) * 10 + (m div 100 mod 10) * 100 = m"
proof -
  have a: "10 * (m div 10) + m mod 10 = m" by (rule mult_div_mod_eq)
  have b: "10 * (m div 10 div 10) + m div 10 mod 10 = m div 10" by (rule mult_div_mod_eq)
  have q: "m div 10 div 10 = m div 100"
    using zdiv_zmult2_eq [of 10 m 10] by simp
  have lt: "m div 100 < 10" using assms by simp
  have ge: "0 \<le> m div 100" using assms by simp
  have h: "m div 100 mod 10 = m div 100"
    using lt ge by simp
  show ?thesis unfolding h using a b q by linarith
qed

lemma digit_range: "0 \<le> (x::int) mod 10 \<and> x mod 10 \<le> 9"
  using pos_mod_bound [of 10 x] pos_mod_sign [of 10 x] by linarith

lemma bytes_to_num_4:
  "bytes_to_num [b0, b1, b2, b3] 4 =
     Some (if b3 = ch CHR ''-''
           then ((uint b0 - uint (ch CHR ''0'')) + (uint b1 - uint (ch CHR ''0'')) * 10
                 + (uint b2 - uint (ch CHR ''0'')) * 100) * (- 1)
           else (uint b0 - uint (ch CHR ''0'')) + (uint b1 - uint (ch CHR ''0'')) * 10
                 + (uint b2 - uint (ch CHR ''0'')) * 100)"
  by (simp add: bytes_to_num_def byte_at_def Let_def)

text \<open>
  C7. For every integer \<open>n\<close> from -999 to 999, \<open>bytes_to_num\<close> decodes the 4-byte
  encoding of \<open>n\<close> (ones, tens and hundreds digit of the magnitude in ASCII, then a sign
  byte that is \<open>'-'\<close> for a negative \<open>n\<close> and another byte for a positive one) to \<open>n\<close>.
\<close>

theorem bytes_to_num_inverse:
  assumes "- 999 \<le> n" and "n \<le> 999"
    and "n < 0 \<longrightarrow> sign = ch CHR ''-''" and "0 < n \<longrightarrow> sign \<noteq> ch CHR ''-''"
  shows "bytes_to_num (num_encoding n sign) 4 = Some n"
proof -
  define m where "m = \<bar>n\<bar>"
  have m: "0 \<le> m" "m \<le> 999" using assms(1,2) by (simp_all add: m_def)
  have z: "uint (ch CHR ''0'') = 48" by (simp add: ch_def)
  have d0: "uint (ascii_digit (m mod 10)) = 48 + m mod 10"
    using digit_range [of m] by (intro uint_ascii_digit) simp_all
  have d1: "uint (ascii_digit (m div 10 mod 10)) = 48 + m div 10 mod 10"
    using digit_range [of "m div 10"] by (intro uint_ascii_digit) simp_all
  have d2: "uint (ascii_digit (m div 100 mod 10)) = 48 + m div 100 mod 10"
    using digit_range [of "m div 100"] by (intro uint_ascii_digit) simp_all
  have val: "(uint (ascii_digit (m mod 10)) - uint (ch CHR ''0''))
          + (uint (ascii_digit (m div 10 mod 10)) - uint (ch CHR ''0'')) * 10
          + (uint (ascii_digit (m div 100 mod 10)) - uint (ch CHR ''0'')) * 100 = m"
    unfolding d0 d1 d2 z add_diff_cancel_left' by (rule digits_sum [OF m])
  have "bytes_to_num (num_encoding n sign) 4 = Some (if sign = ch CHR ''-'' then m * (- 1) else m)"
    unfolding num_encoding_def m_def [symmetric] bytes_to_num_4 val ..
  also have "\<dots> = Some n" using assms by (auto simp: m_def)
  finally show ?thesis .
qed

theorem bytes_to_num_inverse_witness:
  "- 999 \<le> (- 123 :: int) \<and> (- 123 :: int) \<le> 999 \<and>
   bytes_to_num [ch CHR ''3'', ch CHR ''2'', ch CHR ''1'', ch CHR ''-''] 4 = Some (- 123) \<and>
   bytes_to_num [ch CHR ''7'', ch CHR ''0'', ch CHR ''0'', ch CHR ''+''] 4 = Some 7"
  using bytes_to_num_inverse [of "- 123" "ch CHR ''-''"] bytes_to_num_inverse [of 7 "ch CHR ''+''"]
  by (simp add: num_encoding_def ascii_digit_def ch_def)

text \<open>The \<open>int16_t\<close> accumulator of \<open>bytes_to_num\<close> never leaves its range.\<close>

lemma weighted_sum_range:
  fixes a b c :: int
  assumes "0 \<le> a \<and> a \<le> 255" and "0 \<le> b \<and> b \<le> 255" and "0 \<le> c \<and> c \<le> 255"
  shows "- 5328 \<le> (a - 48) + (b - 48) * 10 + (c - 48) * 100 \<and>
         (a - 48) + (b - 48) * 10 + (c - 48) * 100 \<le> 22977"
  using assms by simp

lemma bytes_to_num_int16:
  assumes "bytes_to_num bytes len = Some v"
  shows "- 32768 \<le> v \<and> v \<le> 32767"
proof -
  have b: "0 \<le> uint x \<and> uint x \<le> 255" for x :: u8
    using uint_lt2p [of x] by simp
  obtain b0 b1 b2 where bs:
    "byte_at bytes 0 = Some b0" "byte_at bytes 1 = Some b1" "byte_at bytes 2 = Some b2"
    using assms by (auto simp: bytes_to_num_def split: bind_splits)
  define V where "V = (uint b0 - 48) + (uint b1 - 48) * 10 + (uint b2 - 48) * 100"
  have "v = V \<or> v = - V"
    using assms bs
    by (auto simp: bytes_to_num_def Let_def V_def ch_def split: bind_splits if_splits)
  moreover have "- 5328 \<le> V \<and> V \<le> 22977"
    unfolding V_def by (rule weighted_sum_range [OF b b b])
  ultimately show ?thesis by linarith
qed

section \<open>The query pool\<close>

lemma length_erase: "i < length xs \<Longrightarrow> length (erase i xs) = length xs - 1"
  by (simp add: erase_def)

lemma erase_nth: "Suc i < length xs \<Longrightarrow> erase i xs ! i = xs ! Suc i"
  by (simp add: erase_def nth_append)

lemma set_erase_distinct: "distinct xs \<Longrightarrow> i < length xs \<Longrightarrow> xs ! i \<notin> set (erase i xs)"
proof -
  assume d: "distinct xs" and i: "i < length xs"
  have "xs = take i xs @ xs ! i # drop (Suc i) xs"
    using i by (simp add: id_take_nth_drop)
  then have "distinct (take i xs @ xs ! i # drop (Suc i) xs)" using d by simp
  then show ?thesis by (auto simp: erase_def)
qed

text \<open>
  C4. In a pool of distinct query codes with the cursor on a live entry, \<open>handle_nak\<close> for
  the query at the cursor removes that code from the pool, shortens the pool by one and
  leaves the cursor on the entry that followed the removed one, or at the end of the pool
  when the removed entry was the last.
\<close>

theorem handle_nak_prunes:
  assumes "distinct (queries s)" and "current_query s < length (queries s)"
    and "tx_command s = queries s ! current_query s"
  shows "\<exists>s'. handle_nak k s = Some s' \<and>
           tx_command s \<notin> set (queries s') \<and>
           Suc (length (queries s')) = length (queries s) \<and>
           current_query s' = current_query s \<and>
           (Suc (current_query s) < length (queries s) \<longrightarrow>
              queries s' ! current_query s' = queries s ! Suc (current_query s)) \<and>
           (Suc (current_query s) = length (queries s) \<longrightarrow>
              current_query s' = length (queries s'))"
  using assms
  by (auto simp add: handle_nak_def deref_def Let_def length_erase erase_nth set_erase_distinct)

theorem handle_nak_prunes_witness:
  "distinct (queries (setup_s21 blank_session\<lparr>current_query := 2, tx_command := cstr ''F9''\<rparr>)) \<and>
   map_option (\<lambda>s. (queries s, current_query s))
     (handle_nak example_consts (setup_s21 blank_session\<lparr>current_query := 2, tx_command := cstr ''F9''\<rparr>)) =
   Some (map cstr [''F1'', ''F5'', ''Rd'', ''RH'', ''RI'', ''Ra'', ''RL'', ''RG''], 2) \<and>
   map_option (\<lambda>s. (queries s, current_query s))
     (handle_nak example_consts (setup_s21 blank_session\<lparr>current_query := 8, tx_command := cstr ''RG''\<rparr>)) =
   Some (map cstr [''F1'', ''F5'', ''F9'', ''Rd'', ''RH'', ''RI'', ''Ra'', ''RL''], 8)"
  using handle_nak_prunes [of "setup_s21 blank_session\<lparr>current_query := 2, tx_command := cstr ''F9''\<rparr>" example_consts]
    handle_nak_prunes [of "setup_s21 blank_session\<lparr>current_query := 8, tx_command := cstr ''RG''\<rparr>" example_consts]
  by (simp add: setup_s21_def default_queries_def cstr_def ch_def handle_nak_def deref_def erase_def)

section \<open>The tick\<close>

text \<open>
  C6. When \<open>service\<close> reports \<open>Error\<close>, \<open>loop\<close> moves the cursor to the end of the pool,
  clears \<open>activate_climate\<close> and \<open>activate_swing_mode\<close> and sets \<open>refresh_state\<close>; every other
  field of the session keeps its value (the transport is as \<open>service\<close> left it). When
  \<open>service\<close> reports \<open>Timeout\<close>, the session outside the transport is unchanged.
\<close>

theorem loop_error_timeout:
  "(service k now (serial s) = Some (Error, ser) \<longrightarrow>
      loop k now s = Some (s\<lparr>serial := ser, current_query := length (queries s),
                             activate_climate := False, activate_swing_mode := False,
                             refresh_state := True\<rparr>)) \<and>
   (service k now (serial s) = Some (Timeout, ser) \<longrightarrow> loop k now s = Some (s\<lparr>serial := ser\<rparr>))"
  by (simp add: loop_def)

theorem loop_error_timeout_witness:
  "service example_consts 1 (serial (receive [0] waiting_session)) =
     Some (Error, idle_serial\<lparr>last_event_time := 1, comm_state := Cooldown, cooldown_length := 3000\<rparr>) \<and>
   loop example_consts 1 (receive [0] waiting_session) =
     Some ((receive [0] waiting_session)
            \<lparr>serial := idle_serial\<lparr>last_event_time := 1, comm_state := Cooldown,
                                     cooldown_length := 3000\<rparr>,
              current_query := length (queries (receive [0] waiting_session)),
              activate_climate := False, activate_swing_mode := False, refresh_state := True\<rparr>) \<and>
   service example_consts 1000 (serial waiting_session) = Some (Timeout, idle_serial) \<and>
   loop example_consts 1000 waiting_session = Some (waiting_session\<lparr>serial := idle_serial\<rparr>)"
proof -
  have e: "service example_consts 1 (serial (receive [0] waiting_session)) =
     Some (Error, idle_serial\<lparr>last_event_time := 1, comm_state := Cooldown, cooldown_length := 3000\<rparr>)"
    by (simp add: service_def receive_def waiting_session_def idle_serial_def example_consts_def
          handle_rx_def enter_cooldown_def ACK_def NAK_def)
  have t: "service example_consts 1000 (serial waiting_session) = Some (Timeout, idle_serial)"
    by (simp add: service_def waiting_session_def idle_serial_def example_consts_def)
  show ?thesis
    using e t
      loop_error_timeout [of example_consts 1 "receive [0] waiting_session"
        "idle_serial\<lparr>last_event_time := 1, comm_state := Cooldown, cooldown_length := 3000\<rparr>"]
      loop_error_timeout [of example_consts 1000 waiting_session idle_serial]
    by blast
qed

lemma loop_idle: "comm_state (serial s) = Idle \<Longrightarrow> loop k now s = tx_next k now s"
  by (simp add: loop_def service_def)

lemma loop_cooldown_over:
  "comm_state (serial s) = Cooldown \<Longrightarrow>
   now - last_event_time (serial s) > cooldown_length (serial s) \<Longrightarrow>
   loop k now s = tx_next k now (s\<lparr>serial := (serial s)\<lparr>comm_state := Idle\<rparr>\<rparr>)"
  by (simp add: loop_def service_def)

lemma loop_command_ack:
  "comm_state (serial s) = CommandAck \<Longrightarrow> rx_uart (serial s) = [ACK] \<Longrightarrow>
   \<not> now - last_event_time (serial s) > S21_RESPONSE_TIMEOUT k \<Longrightarrow>
   loop k now s =
     parse_ack k (s\<lparr>serial := (serial s)\<lparr>last_event_time := now, comm_state := Cooldown,
                      cooldown_length := S21_RESPONSE_TURNAROUND k, rx_uart := []\<rparr>\<rparr>)"
  by (simp add: loop_def service_def handle_rx_def enter_cooldown_def)

lemma parse_ack_D1:
  "tx_command s = cstr ''D1'' \<Longrightarrow> response (serial s) = [] \<Longrightarrow> 1 \<le> S21_MAX_COMMAND_SIZE k \<Longrightarrow>
   parse_ack k s = Some (s\<lparr>activate_climate := False, refresh_state := True\<rparr>)"
  by (simp add: parse_ack_def strlen_def cstr_def Let_def rcode_buf_def dispatch_def byte_at_def
        decode_D_def ch_def nth_append)

lemma send_idle:
  "comm_state (serial s) = Idle \<Longrightarrow> strlen (tx_command s) \<le> S21_MAX_COMMAND_SIZE k \<Longrightarrow>
   send k now payload s =
     s\<lparr>serial := (serial s)\<lparr>comm_state := (if payload \<noteq> None then CommandAck else QueryAck),
             last_event_time := now, response := [],
             tx_uart := tx_uart (serial s) @ wire_frame (tx_command s) payload, rx_uart := []\<rparr>\<rparr>"
  by (simp add: send_def send_frame_ack)

lemma parse_ack_D5:
  "tx_command s = cstr ''D5'' \<Longrightarrow> response (serial s) = [] \<Longrightarrow> 1 \<le> S21_MAX_COMMAND_SIZE k \<Longrightarrow>
   parse_ack k s = Some (s\<lparr>activate_swing_mode := False, refresh_state := True\<rparr>)"
  by (simp add: parse_ack_def strlen_def cstr_def Let_def rcode_buf_def dispatch_def byte_at_def
        decode_D_def ch_def nth_append)

lemma resume_scan:
  assumes "comm_state (serial s) = Cooldown"
    and "now - last_event_time (serial s) > cooldown_length (serial s)"
    and "\<not> activate_climate s" and "\<not> activate_swing_mode s"
    and "current_query s < length (queries s)"
  shows "\<exists>s'. run k [Tick now] s = Some s' \<and>
           tx_command s' = queries s ! current_query s \<and>
           queries s' = queries s \<and> current_query s' = current_query s"
proof -
  define s' where "s' = send k now None
      (s\<lparr>serial := (serial s)\<lparr>comm_state := Idle\<rparr>, tx_command := queries s ! current_query s\<rparr>)"
  have "loop k now s = Some s'"
    using assms by (subst loop_cooldown_over) (simp_all add: tx_next_def deref_def s'_def)
  moreover have "tx_command s' = queries s ! current_query s" "queries s' = queries s"
    "current_query s' = current_query s"
    by (simp_all add: s'_def send_def)
  ultimately show ?thesis by simp
qed

lemma swing_exchange:
  assumes cd: "comm_state (serial s) = Cooldown"
    and t3: "now3 - last_event_time (serial s) > cooldown_length (serial s)"
    and ac: "\<not> activate_climate s" and sw: "activate_swing_mode s"
    and mx: "2 \<le> S21_MAX_COMMAND_SIZE k"
    and t4: "\<not> now4 - now3 > S21_RESPONSE_TIMEOUT k"
  shows "\<exists>s3 s4. run k [Tick now3] s = Some s3 \<and>
           tx_command s3 = cstr ''D5'' \<and>
           tx_uart (serial s3) =
             tx_uart (serial s) @ wire_frame (cstr ''D5'') (Some (swing_payload (pending s))) \<and>
           queries s3 = queries s \<and> current_query s3 = current_query s \<and>
           run k [Receive [ACK], Tick now4] s3 = Some s4 \<and>
           comm_state (serial s4) = Cooldown \<and>
           last_event_time (serial s4) = now4 \<and>
           cooldown_length (serial s4) = S21_RESPONSE_TURNAROUND k \<and>
           \<not> activate_climate s4 \<and> \<not> activate_swing_mode s4 \<and>
           queries s4 = queries s \<and> current_query s4 = current_query s"
proof -
  let ?i = "s\<lparr>serial := (serial s)\<lparr>comm_state := Idle\<rparr>\<rparr>"
  define s3 where "s3 = send k now3 (Some (swing_payload (pending s))) (?i\<lparr>tx_command := cstr ''D5''\<rparr>)"
  have s3_eq: "s3 = s\<lparr>serial := (serial s)\<lparr>comm_state := CommandAck,
             last_event_time := now3, response := [],
             tx_uart := tx_uart (serial s) @ wire_frame (cstr ''D5'') (Some (swing_payload (pending s))),
             rx_uart := []\<rparr>, tx_command := cstr ''D5''\<rparr>"
    unfolding s3_def using mx by (simp add: send_idle strlen_def cstr_def)
  have l3: "loop k now3 s = Some s3"
    using cd t3 ac sw by (subst loop_cooldown_over) (simp_all add: tx_next_def s3_def)
  define s4 where "s4 = s3\<lparr>serial := (serial s3)\<lparr>last_event_time := now4, comm_state := Cooldown,
                      cooldown_length := S21_RESPONSE_TURNAROUND k, rx_uart := []\<rparr>,
                    activate_swing_mode := False, refresh_state := True\<rparr>"
  have l4: "loop k now4 (receive [ACK] s3) = Some s4"
    using t4 mx unfolding s4_def
    by (subst loop_command_ack) (simp_all add: s3_eq receive_def parse_ack_D5)
  have "run k [Tick now3] s = Some s3" using l3 by simp
  moreover have "run k [Receive [ACK], Tick now4] s3 = Some s4" using l4 by simp
  moreover have "tx_command s3 = cstr ''D5''" "queries s3 = queries s" "current_query s3 = current_query s"
    "tx_uart (serial s3) =
       tx_uart (serial s) @ wire_frame (cstr ''D5'') (Some (swing_payload (pending s)))"
    by (simp_all add: s3_eq)
  moreover have "comm_state (serial s4) = Cooldown" "last_event_time (serial s4) = now4"
    "cooldown_length (serial s4) = S21_RESPONSE_TURNAROUND k"
    "\<not> activate_climate s4" "\<not> activate_swing_mode s4"
    "queries s4 = queries s" "current_query s4 = current_query s"
    using ac by (simp_all add: s4_def s3_eq)
  ultimately show ?thesis by blast
qed

text \<open>
  C5. With a climate activation pending and a scan in progress, the frame \<open>tx_next\<close> sends
  on an idle tick is the command \<open>D1\<close> with the pending settings, not the query at the
  cursor; the acknowledgment of that command clears the activation and leaves pool and
  cursor as they were. The scan then resumes at that same cursor position: on the next idle
  tick when no swing activation is pending, and otherwise after the exchange of the swing
  command \<open>D5\<close>, which leaves pool and cursor untouched as well.
\<close>

theorem climate_command_priority:
  assumes ac: "activate_climate s"
    and cq: "current_query s < length (queries s)"
    and idle: "comm_state (serial s) = Idle"
    and mx: "2 \<le> S21_MAX_COMMAND_SIZE k"
    and t2: "\<not> now2 - now > S21_RESPONSE_TIMEOUT k"
    and t3: "now3 - now2 > S21_RESPONSE_TURNAROUND k"
  shows "\<exists>s1 s2.
           run k [Tick now] s = Some s1 \<and>
           tx_command s1 = cstr ''D1'' \<and>
           tx_uart (serial s1) =
             tx_uart (serial s) @ wire_frame (cstr ''D1'') (Some (climate_payload (pending s))) \<and>
           comm_state (serial s1) = CommandAck \<and>
           run k [Receive [ACK], Tick now2] s1 = Some s2 \<and>
           \<not> activate_climate s2 \<and>
           queries s2 = queries s \<and> current_query s2 = current_query s \<and>
           (\<not> activate_swing_mode s \<longrightarrow>
              (\<exists>s3. run k [Tick now3] s2 = Some s3 \<and>
                    tx_command s3 = queries s ! current_query s \<and>
                    queries s3 = queries s \<and> current_query s3 = current_query s)) \<and>
           (activate_swing_mode s \<and> \<not> now4 - now3 > S21_RESPONSE_TIMEOUT k \<and>
              now5 - now4 > S21_RESPONSE_TURNAROUND k \<longrightarrow>
              (\<exists>s3 s4 s5.
                    run k [Tick now3] s2 = Some s3 \<and>
                    tx_command s3 = cstr ''D5'' \<and>
                    tx_uart (serial s3) =
                      tx_uart (serial s2) @ wire_frame (cstr ''D5'') (Some (swing_payload (pending s))) \<and>
                    queries s3 = queries s \<and> current_query s3 = current_query s \<and>
                    run k [Receive [ACK], Tick now4] s3 = Some s4 \<and>
                    queries s4 = queries s \<and> current_query s4 = current_query s \<and>
                    run k [Tick now5] s4 = Some s5 \<and>
                    tx_command s5 = queries s ! current_query s \<and>
                    queries s5 = queries s \<and> current_query s5 = current_query s))"
proof -
  define s1 where "s1 = send k now (Some (climate_payload (pending s))) (s\<lparr>tx_command := cstr ''D1''\<rparr>)"
  have s1_eq: "s1 = s\<lparr>serial := (serial s)\<lparr>comm_state := CommandAck,
             last_event_time := now, response := [],
             tx_uart := tx_uart (serial s) @ wire_frame (cstr ''D1'') (Some (climate_payload (pending s))),
             rx_uart := []\<rparr>, tx_command := cstr ''D1''\<rparr>"
    unfolding s1_def using idle mx by (simp add: send_idle strlen_def cstr_def)
  have r1: "run k [Tick now] s = Some s1"
    using ac idle by (simp add: loop_idle tx_next_def s1_def)
  define s2 where "s2 = s1\<lparr>serial := (serial s1)\<lparr>last_event_time := now2, comm_state := Cooldown,
                      cooldown_length := S21_RESPONSE_TURNAROUND k, rx_uart := []\<rparr>,
                    activate_climate := False, refresh_state := True\<rparr>"
  have l2: "loop k now2 (receive [ACK] s1) = Some s2"
    using t2 mx unfolding s2_def
    by (subst loop_command_ack) (simp_all add: s1_eq receive_def parse_ack_D1)
  have r2: "run k [Receive [ACK], Tick now2] s1 = Some s2"
    using l2 by simp
  have f2: "comm_state (serial s2) = Cooldown" "last_event_time (serial s2) = now2"
    "cooldown_length (serial s2) = S21_RESPONSE_TURNAROUND k"
    "\<not> activate_climate s2" "activate_swing_mode s2 = activate_swing_mode s"
    "queries s2 = queries s" "current_query s2 = current_query s" "pending s2 = pending s"
    by (simp_all add: s2_def s1_eq)
  have cd2: "now3 - last_event_time (serial s2) > cooldown_length (serial s2)"
    using t3 f2 by simp
  have cq2: "current_query s2 < length (queries s2)"
    using cq f2 by simp
  have resume: "\<exists>s3. run k [Tick now3] s2 = Some s3 \<and>
                    tx_command s3 = queries s ! current_query s \<and>
                    queries s3 = queries s \<and> current_query s3 = current_query s"
    if sw: "\<not> activate_swing_mode s"
  proof -
    have "\<not> activate_swing_mode s2" using sw f2 by simp
    from resume_scan [OF f2(1) cd2 f2(4) this cq2, of k] show ?thesis
      using f2 by simp
  qed
  have swing: "\<exists>s3 s4 s5.
                    run k [Tick now3] s2 = Some s3 \<and>
                    tx_command s3 = cstr ''D5'' \<and>
                    tx_uart (serial s3) =
                      tx_uart (serial s2) @ wire_frame (cstr ''D5'') (Some (swing_payload (pending s))) \<and>
                    queries s3 = queries s \<and> current_query s3 = current_query s \<and>
                    run k [Receive [ACK], Tick now4] s3 = Some s4 \<and>
                    queries s4 = queries s \<and> current_query s4 = current_query s \<and>
                    run k [Tick now5] s4 = Some s5 \<and>
                    tx_command s5 = queries s ! current_query s \<and>
                    queries s5 = queries s \<and> current_query s5 = current_query s"
    if sw: "activate_swing_mode s" and t4: "\<not> now4 - now3 > S21_RESPONSE_TIMEOUT k"
      and t5: "now5 - now4 > S21_RESPONSE_TURNAROUND k"
  proof -
    have sw2: "activate_swing_mode s2" using sw f2 by simp
    from swing_exchange [OF f2(1) cd2 f2(4) sw2 mx t4] obtain s3 s4 where
      x: "run k [Tick now3] s2 = Some s3" "tx_command s3 = cstr ''D5''"
         "tx_uart (serial s3) =
            tx_uart (serial s2) @ wire_frame (cstr ''D5'') (Some (swing_payload (pending s2)))"
         "queries s3 = queries s2" "current_query s3 = current_query s2"
         "run k [Receive [ACK], Tick now4] s3 = Some s4"
         "comm_state (serial s4) = Cooldown" "last_event_time (serial s4) = now4"
         "cooldown_length (serial s4) = S21_RESPONSE_TURNAROUND k"
         "\<not> activate_climate s4" "\<not> activate_swing_mode s4"
         "queries s4 = queries s2" "current_query s4 = current_query s2"
      by blast
    have cd4: "now5 - last_event_time (serial s4) > cooldown_length (serial s4)"
      using t5 x by simp
    have cq4: "current_query s4 < length (queries s4)"
      using cq2 x by simp
    from resume_scan [OF x(7) cd4 x(10) x(11) cq4, of k] obtain s5 where
      y: "run k [Tick now5] s4 = Some s5" "tx_command s5 = queries s4 ! current_query s4"
         "queries s5 = queries s4" "current_query s5 = current_query s4"
      by blast
    show ?thesis
      using x(1-6,12,13) y f2(6,7,8) by (intro exI [of _ s3] exI [of _ s4] exI [of _ s5]) simp
  qed
  have "tx_command s1 = cstr ''D1''" "comm_state (serial s1) = CommandAck"
    "tx_uart (serial s1) =
       tx_uart (serial s) @ wire_frame (cstr ''D1'') (Some (climate_payload (pending s)))"
    by (simp_all add: s1_eq)
  then show ?thesis
    using r1 r2 f2(4,6,7) resume swing
    by (intro exI [of _ s1] exI [of _ s2]) blast
qed

theorem climate_command_priority_witness:
  "activate_climate climate_request \<and>
   current_query climate_request < length (queries climate_request) \<and>
   comm_state (serial climate_request) = Idle \<and>
   2 \<le> S21_MAX_COMMAND_SIZE example_consts \<and>
   \<not> (10::u32) - 0 > S21_RESPONSE_TIMEOUT example_consts \<and>
   (100::u32) - 10 > S21_RESPONSE_TURNAROUND example_consts \<and>
   \<not> activate_swing_mode climate_request \<and>
   (\<exists>s1 s2 s3.
       run example_consts [Tick 0] climate_request = Some s1 \<and>
       tx_command s1 = cstr ''D1'' \<and>
       run example_consts [Receive [ACK], Tick 10] s1 = Some s2 \<and>
       \<not> activate_climate s2 \<and> current_query s2 = current_query climate_request \<and>
       run example_consts [Tick 100] s2 = Some s3 \<and>
       tx_command s3 = queries climate_request ! current_query climate_request \<and>
       current_query s3 = current_query climate_request) \<and>
   activate_climate swing_and_climate_request \<and>
   current_query swing_and_climate_request < length (queries swing_and_climate_request) \<and>
   comm_state (serial swing_and_climate_request) = Idle \<and>
   activate_swing_mode swing_and_climate_request \<and>
   \<not> (110::u32) - 100 > S21_RESPONSE_TIMEOUT example_consts \<and>
   (200::u32) - 110 > S21_RESPONSE_TURNAROUND example_consts \<and>
   (\<exists>s1 s2 s3 s4 s5.
       run example_consts [Tick 0] swing_and_climate_request = Some s1 \<and>
       tx_command s1 = cstr ''D1'' \<and>
       run example_consts [Receive [ACK], Tick 10] s1 = Some s2 \<and>
       run example_consts [Tick 100] s2 = Some s3 \<and>
       tx_command s3 = cstr ''D5'' \<and> current_query s3 = current_query swing_and_climate_request \<and>
       run example_consts [Receive [ACK], Tick 110] s3 = Some s4 \<and>
       run example_consts [Tick 200] s4 = Some s5 \<and>
       tx_command s5 = queries swing_and_climate_request ! current_query swing_and_climate_request \<and>
       current_query s5 = current_query swing_and_climate_request)"
proof -
  have h: "activate_climate climate_request"
    "current_query climate_request < length (queries climate_request)"
    "comm_state (serial climate_request) = Idle" "2 \<le> S21_MAX_COMMAND_SIZE example_consts"
    "\<not> (10::u32) - 0 > S21_RESPONSE_TIMEOUT example_consts"
    "(100::u32) - 10 > S21_RESPONSE_TURNAROUND example_consts"
    by (simp_all add: climate_request_def set_daikin_climate_settings_def setup_s21_def
          default_queries_def blank_session_def idle_serial_def example_consts_def)
  have sw: "\<not> activate_swing_mode climate_request"
    by (simp add: climate_request_def set_daikin_climate_settings_def setup_s21_def
          blank_session_def)
  have h': "activate_climate swing_and_climate_request"
    "current_query swing_and_climate_request < length (queries swing_and_climate_request)"
    "comm_state (serial swing_and_climate_request) = Idle"
    by (simp_all add: swing_and_climate_request_def set_swing_settings_def climate_request_def
          set_daikin_climate_settings_def setup_s21_def
          default_queries_def blank_session_def idle_serial_def)
  have sw': "activate_swing_mode swing_and_climate_request"
    by (simp add: swing_and_climate_request_def set_swing_settings_def)
  have t: "\<not> (110::u32) - 100 > S21_RESPONSE_TIMEOUT example_consts"
    "(200::u32) - 110 > S21_RESPONSE_TURNAROUND example_consts"
    by (simp_all add: example_consts_def)
  have a: "\<exists>s1 s2 s3.
       run example_consts [Tick 0] climate_request = Some s1 \<and>
       tx_command s1 = cstr ''D1'' \<and>
       run example_consts [Receive [ACK], Tick 10] s1 = Some s2 \<and>
       \<not> activate_climate s2 \<and> current_query s2 = current_query climate_request \<and>
       run example_consts [Tick 100] s2 = Some s3 \<and>
       tx_command s3 = queries climate_request ! current_query climate_request \<and>
       current_query s3 = current_query climate_request"
    using climate_command_priority [OF h, of 0 0] sw by blast
  have b: "\<exists>s1 s2 s3 s4 s5.
       run example_consts [Tick 0] swing_and_climate_request = Some s1 \<and>
       tx_command s1 = cstr ''D1'' \<and>
       run example_consts [Receive [ACK], Tick 10] s1 = Some s2 \<and>
       run example_consts [Tick 100] s2 = Some s3 \<and>
       tx_command s3 = cstr ''D5'' \<and> current_query s3 = current_query swing_and_climate_request \<and>
       run example_consts [Receive [ACK], Tick 110] s3 = Some s4 \<and>
       run example_consts [Tick 200] s4 = Some s5 \<and>
       tx_command s5 = queries swing_and_climate_request ! current_query swing_and_climate_request \<and>
       current_query s5 = current_query swing_and_climate_request"
    using climate_command_priority [OF h' h(4,5,6), of 110 200] sw' t by blast
  show ?thesis
    using h sw h' sw' t a b by blast
qed

section \<open>The fan capability flag\<close>

lemma debug_diff_RG: "debug_diff rcode payload s = Some s' \<Longrightarrow> support_RG s' = support_RG s"
  by (auto simp: debug_diff_def Let_def split: if_splits)

lemma decode_G_RG: "decode_G rcode payload s = Some s' \<Longrightarrow> support_RG s' = support_RG s"
  by (auto simp: decode_G_def split: if_splits bind_splits dest!: debug_diff_RG)

lemma decode_S_RG: "decode_S rcode payload s = Some s' \<Longrightarrow> support_RG s \<Longrightarrow> support_RG s'"
  by (auto simp: decode_S_def Let_def split: if_splits bind_splits dest!: debug_diff_RG)

lemma decode_D_RG: "decode_D rcode s = Some s' \<Longrightarrow> support_RG s' = support_RG s"
  by (auto simp: decode_D_def Let_def split: if_splits bind_splits)

lemma dispatch_RG: "dispatch rcode payload s = Some s' \<Longrightarrow> support_RG s \<Longrightarrow> support_RG s'"
  by (auto simp: dispatch_def split: if_splits bind_splits
           dest: debug_diff_RG decode_G_RG decode_S_RG decode_D_RG)

lemma parse_ack_RG: "parse_ack k s = Some s' \<Longrightarrow> support_RG s \<Longrightarrow> support_RG s'"
  by (auto simp: parse_ack_def Let_def split: if_splits dest: dispatch_RG)

lemma handle_nak_RG: "handle_nak k s = Some s' \<Longrightarrow> support_RG s \<Longrightarrow> support_RG s'"
  by (auto simp: handle_nak_def Let_def split: if_splits bind_splits dest: parse_ack_RG)

lemma refine_queries_RG: "support_RG (refine_queries s) = support_RG s"
  by (simp add: refine_queries_def Let_def)

lemma send_RG: "support_RG (send k now payload s) = support_RG s"
  by (simp add: send_def)

lemma tx_next_RG: "tx_next k now s = Some s' \<Longrightarrow> support_RG s' = support_RG s"
  by (auto simp: tx_next_def Let_def send_RG refine_queries_RG split: if_splits bind_splits)

lemma loop_RG:
  assumes l: "loop k now s = Some s'" and rg: "support_RG s"
  shows "support_RG s'"
proof -
  from l obtain r ser where sv: "service k now (serial s) = Some (r, ser)"
    by (auto simp: loop_def split: bind_splits)
  let ?s1 = "s\<lparr>serial := ser\<rparr>"
  have rg1: "support_RG ?s1" using rg by simp
  show ?thesis
  proof (cases r)
    case Busy
    then have "s' = ?s1" using l sv by (simp add: loop_def)
    then show ?thesis using rg by simp
  next
    case Idle
    then have "tx_next k now ?s1 = Some s'" using l sv by (simp add: loop_def)
    then show ?thesis using tx_next_RG rg1 by blast
  next
    case Ack
    then have "parse_ack k ?s1 = Some s'" using l sv by (simp add: loop_def)
    then show ?thesis using parse_ack_RG rg1 by blast
  next
    case Nak
    then have "handle_nak k ?s1 = Some s'" using l sv by (simp add: loop_def)
    then show ?thesis using handle_nak_RG rg1 by blast
  next
    case Error
    then have "support_RG s' = support_RG s" using l sv by (auto simp: loop_def)
    then show ?thesis using rg by simp
  next
    case Timeout
    then have "s' = ?s1" using l sv by (simp add: loop_def)
    then show ?thesis using rg by simp
  qed
qed

lemma step_RG: "step k e s = Some s' \<Longrightarrow> support_RG s \<Longrightarrow> support_RG s'"
  by (cases e)
     (auto simp: receive_def set_daikin_climate_settings_def set_swing_settings_def update_def
           dest: loop_RG)

lemma run_RG: "run k es s = Some s' \<Longrightarrow> support_RG s \<Longrightarrow> support_RG s'"
  by (induction es arbitrary: s) (auto split: option.splits dest: step_RG)

lemma parse_ack_G1:
  assumes "response (serial s) = cstr ''G1'' @ payload" and "strlen (tx_command s) = 2"
    and "length payload = S21_PAYLOAD_SIZE" and "current_query s < length (queries s)"
    and "1 \<le> S21_MAX_COMMAND_SIZE k"
  shows "parse_ack k s =
     Some (s\<lparr>current_query := Suc (current_query s),
             active := (active s)\<lparr>power_on := (payload ! 0 = ch CHR ''1''),
                                  mode := payload ! 1,
                                  setpoint := of_int ((uint (payload ! 2) - 28) * 5),
                                  fan := (if support_RG s then fan (active s) else payload ! 3)\<rparr>,
             ready := insert ReadyBasic (ready s)\<rparr>)"
  using assms
  by (simp add: parse_ack_def Let_def cstr_def rcode_buf_def dispatch_def decode_G_def
        byte_at_def ch_def S21_PAYLOAD_SIZE_def nth_append)

lemma parse_ack_SG:
  assumes "response (serial s) = cstr ''SG'' @ payload" and "strlen (tx_command s) = 2"
    and "0 < length payload" and "length payload \<le> S21_PAYLOAD_SIZE"
    and "current_query s < length (queries s)" and "1 \<le> S21_MAX_COMMAND_SIZE k"
  shows "parse_ack k s =
     Some (s\<lparr>current_query := Suc (current_query s),
             active := (active s)\<lparr>fan := payload ! 0\<rparr>, support_RG := True\<rparr>)"
  using assms
  by (simp add: parse_ack_def Let_def cstr_def rcode_buf_def dispatch_def decode_S_def
        byte_at_def ch_def S21_PAYLOAD_SIZE_def nth_append)

text \<open>
  C9. Once \<open>support_RG\<close> is set (an \<open>SG\<close> response sets it), it stays set through every
  later tick, reception and host call, and a \<open>G1\<close> response parsed in any later state
  leaves \<open>active.fan\<close> as it was; while \<open>support_RG\<close> is clear, a \<open>G1\<close> response sets
  \<open>active.fan\<close> to its fourth payload byte.
\<close>

theorem fan_gating:
  "(support_RG s \<and> run k es s = Some s1 \<and>
      response (serial s1) = cstr ''G1'' @ payload \<and> strlen (tx_command s1) = 2 \<and>
      length payload = S21_PAYLOAD_SIZE \<and> current_query s1 < length (queries s1) \<and>
      1 \<le> S21_MAX_COMMAND_SIZE k \<longrightarrow>
      (\<exists>s2. parse_ack k s1 = Some s2 \<and> fan (active s2) = fan (active s1) \<and> support_RG s2)) \<and>
   (\<not> support_RG s \<and>
      response (serial s) = cstr ''G1'' @ payload \<and> strlen (tx_command s) = 2 \<and>
      length payload = S21_PAYLOAD_SIZE \<and> current_query s < length (queries s) \<and>
      1 \<le> S21_MAX_COMMAND_SIZE k \<longrightarrow>
      (\<exists>s2. parse_ack k s = Some s2 \<and> fan (active s2) = payload ! 3)) \<and>
   (response (serial s) = cstr ''SG'' @ payload \<and> strlen (tx_command s) = 2 \<and>
      0 < length payload \<and> length payload \<le> S21_PAYLOAD_SIZE \<and>
      current_query s < length (queries s) \<and> 1 \<le> S21_MAX_COMMAND_SIZE k \<longrightarrow>
      (\<exists>s2. parse_ack k s = Some s2 \<and> support_RG s2))"
proof (intro conjI impI)
  assume a: "support_RG s \<and> run k es s = Some s1 \<and>
      response (serial s1) = cstr ''G1'' @ payload \<and> strlen (tx_command s1) = 2 \<and>
      length payload = S21_PAYLOAD_SIZE \<and> current_query s1 < length (queries s1) \<and>
      1 \<le> S21_MAX_COMMAND_SIZE k"
  then have rg: "support_RG s1" using run_RG by blast
  show "\<exists>s2. parse_ack k s1 = Some s2 \<and> fan (active s2) = fan (active s1) \<and> support_RG s2"
    using a rg by (simp add: parse_ack_G1)
next
  assume a: "\<not> support_RG s \<and>
      response (serial s) = cstr ''G1'' @ payload \<and> strlen (tx_command s) = 2 \<and>
      length payload = S21_PAYLOAD_SIZE \<and> current_query s < length (queries s) \<and>
      1 \<le> S21_MAX_COMMAND_SIZE k"
  then show "\<exists>s2. parse_ack k s = Some s2 \<and> fan (active s2) = payload ! 3"
    by (simp add: parse_ack_G1)
next
  assume a: "response (serial s) = cstr ''SG'' @ payload \<and> strlen (tx_command s) = 2 \<and>
      0 < length payload \<and> length payload \<le> S21_PAYLOAD_SIZE \<and>
      current_query s < length (queries s) \<and> 1 \<le> S21_MAX_COMMAND_SIZE k"
  then show "\<exists>s2. parse_ack k s = Some s2 \<and> support_RG s2"
    by (simp add: parse_ack_SG)
qed

theorem fan_gating_witness:
  "run example_consts [Update, Receive [ACK]] (g1_answered\<lparr>support_RG := True\<rparr>) =
     Some (receive [ACK] (update (g1_answered\<lparr>support_RG := True\<rparr>))) \<and>
   map_option (\<lambda>s. (fan (active s), support_RG s))
     (parse_ack example_consts (receive [ACK] (update (g1_answered\<lparr>support_RG := True\<rparr>)))) =
     Some (ch CHR ''A'', True) \<and>
   map_option (\<lambda>s. fan (active s)) (parse_ack example_consts g1_answered) = Some (ch CHR ''3'') \<and>
   map_option support_RG
     (parse_ack example_consts
        (g1_answered\<lparr>serial := idle_serial\<lparr>response := cstr ''SG'' @ cstr ''B''\<rparr>\<rparr>)) = Some True"
  using fan_gating [of "g1_answered\<lparr>support_RG := True\<rparr>" example_consts "[Update, Receive [ACK]]"
      "receive [ACK] (update (g1_answered\<lparr>support_RG := True\<rparr>))" "cstr ''1A03''"]
    fan_gating [of g1_answered example_consts "[]" g1_answered "cstr ''1A03''"]
    fan_gating [of "g1_answered\<lparr>serial := idle_serial\<lparr>response := cstr ''SG'' @ cstr ''B''\<rparr>\<rparr>"
      example_consts "[]" g1_answered "cstr ''B''"]
  by (auto simp add: g1_answered_def setup_s21_def default_queries_def blank_session_def
        blank_settings_def idle_serial_def example_consts_def receive_def update_def strlen_def
        S21_PAYLOAD_SIZE_def cstr_def)

section \<open>The end-to-end scenario\<close>

lemma g1_reply_frame:
  "g1_reply = ACK # [STX] @ (cstr ''G1'' @ cstr ''1A03'') @ [spec_checksum (cstr ''G1'' @ cstr ''1A03'')] @ [ETX]"
  by (simp add: g1_reply_def cstr_def ch_def spec_checksum_def sum8_def STX_def)

lemma loop_query_reply:
  assumes st: "comm_state (serial s) = QueryAck" and empty: "response (serial s) = []"
    and rx: "rx_uart (serial s) = ACK # [STX] @ body @ [spec_checksum body] @ [ETX]"
    and noetx: "ETX \<notin> set body" and chk: "spec_checksum body \<noteq> ETX"
    and len: "length body \<le> S21_MAX_COMMAND_SIZE k + S21_PAYLOAD_SIZE"
    and t: "\<not> now - last_event_time (serial s) > S21_RESPONSE_TIMEOUT k"
  shows "loop k now s =
     parse_ack k (s\<lparr>serial := (serial s)\<lparr>comm_state := Cooldown,
                      cooldown_length := S21_RESPONSE_TURNAROUND k,
                      last_event_time := now, response := body,
                      tx_uart := tx_uart (serial s) @ [ACK], rx_uart := []\<rparr>\<rparr>)"
proof -
  let ?r = "(serial s)\<lparr>rx_uart := []\<rparr>"
  have "rx_loop k now (rx_uart (serial s)) ?r =
        Some (Ack, [], ?r\<lparr>comm_state := Cooldown, cooldown_length := S21_RESPONSE_TURNAROUND k,
                          last_event_time := now, response := body,
                          tx_uart := tx_uart ?r @ [ACK]\<rparr>)"
    unfolding rx using st empty noetx chk len by (intro rx_loop_frame) simp_all
  then show ?thesis using st t by (simp add: loop_def service_def)
qed

text \<open>
  C8 (amended). A session with the cursor on \<open>F1\<close> and nothing to activate transmits the
  query \<open>F1\<close>; after the bytes \<open>ACK\<close>, \<open>STX\<close>, \<open>'G'\<close>, \<open>'1'\<close>, \<open>'1'\<close>, \<open>'A'\<close>, \<open>'0'\<close>, \<open>'3'\<close>,
  the checksum \<open>0x4D\<close> and \<open>ETX\<close>, the next tick decodes \<open>power_on\<close> as true and \<open>mode\<close> as
  the value of the byte \<open>'A'\<close>; \<open>fan\<close> becomes the value of the byte \<open>'3'\<close> while
  \<open>support_RG\<close> is clear and keeps its value once \<open>support_RG\<close> is set.
\<close>

theorem basic_state_end_to_end:
  assumes idle: "comm_state (serial s) = Idle"
    and ac: "\<not> activate_climate s" and sw: "\<not> activate_swing_mode s"
    and cq: "current_query s < length (queries s)"
    and q: "queries s ! current_query s = cstr ''F1''"
    and mx: "2 \<le> S21_MAX_COMMAND_SIZE k"
    and t: "\<not> now2 - now > S21_RESPONSE_TIMEOUT k"
  shows "\<exists>s'. run k [Tick now, Receive g1_reply, Tick now2] s = Some s' \<and>
           power_on (active s') \<and> mode (active s') = ch CHR ''A'' \<and>
           (\<not> support_RG s \<longrightarrow> fan (active s') = ch CHR ''3'') \<and>
           (support_RG s \<longrightarrow> fan (active s') = fan (active s))"
proof -
  define s1 where "s1 = send k now None (s\<lparr>tx_command := cstr ''F1''\<rparr>)"
  have s1_eq: "s1 = s\<lparr>serial := (serial s)\<lparr>comm_state := QueryAck,
             last_event_time := now, response := [],
             tx_uart := tx_uart (serial s) @ wire_frame (cstr ''F1'') None,
             rx_uart := []\<rparr>, tx_command := cstr ''F1''\<rparr>"
    unfolding s1_def using idle mx by (simp add: send_idle strlen_def cstr_def)
  have l1: "loop k now s = Some s1"
    using idle ac sw cq q by (simp add: loop_idle tx_next_def deref_def s1_def)
  let ?body = "cstr ''G1'' @ cstr ''1A03''"
  define s2 where "s2 = (receive g1_reply s1)\<lparr>serial := (serial (receive g1_reply s1))\<lparr>comm_state := Cooldown,
                      cooldown_length := S21_RESPONSE_TURNAROUND k,
                      last_event_time := now2, response := ?body,
                      tx_uart := tx_uart (serial (receive g1_reply s1)) @ [ACK], rx_uart := []\<rparr>\<rparr>"
  have l2: "loop k now2 (receive g1_reply s1) = parse_ack k s2"
    unfolding s2_def
  proof (rule loop_query_reply)
    show "rx_uart (serial (receive g1_reply s1)) = ACK # [STX] @ ?body @ [spec_checksum ?body] @ [ETX]"
      by (simp add: receive_def s1_eq g1_reply_frame)
    show "ETX \<notin> set ?body" by (simp add: cstr_def ch_def ETX_def)
    show "spec_checksum ?body \<noteq> ETX"
      by (simp add: cstr_def ch_def spec_checksum_def sum8_def STX_def ETX_def)
    show "length ?body \<le> S21_MAX_COMMAND_SIZE k + S21_PAYLOAD_SIZE"
      using mx by (simp add: cstr_def S21_PAYLOAD_SIZE_def)
  qed (use t in \<open>simp_all add: receive_def s1_eq\<close>)
  have p: "parse_ack k s2 =
     Some (s2\<lparr>current_query := Suc (current_query s2),
             active := (active s2)\<lparr>power_on := (cstr ''1A03'' ! 0 = ch CHR ''1''),
                                  mode := cstr ''1A03'' ! 1,
                                  setpoint := of_int ((uint (cstr ''1A03'' ! 2) - 28) * 5),
                                  fan := (if support_RG s2 then fan (active s2) else cstr ''1A03'' ! 3)\<rparr>,
             ready := insert ReadyBasic (ready s2)\<rparr>)"
    using cq mx
    by (intro parse_ack_G1)
       (simp_all add: s2_def receive_def s1_eq strlen_def S21_PAYLOAD_SIZE_def, simp_all add: cstr_def)
  have rg2: "support_RG s2 = support_RG s" "fan (active s2) = fan (active s)"
    by (simp_all add: s2_def receive_def s1_eq)
  show ?thesis
    using l1 l2 rg2 by (simp add: p cstr_def)
qed

theorem basic_state_end_to_end_witness:
  "comm_state (serial (setup_s21 blank_session)) = Idle \<and>
   queries (setup_s21 blank_session) ! current_query (setup_s21 blank_session) = cstr ''F1'' \<and>
   \<not> support_RG (setup_s21 blank_session) \<and>
   (\<exists>s'. run example_consts [Tick 0, Receive g1_reply, Tick 60] (setup_s21 blank_session) = Some s' \<and>
         power_on (active s') \<and> mode (active s') = ch CHR ''A'' \<and> fan (active s') = ch CHR ''3'') \<and>
   support_RG g1_expected \<and>
   (\<exists>s'. run example_consts [Tick 0, Receive g1_reply, Tick 60] g1_expected = Some s' \<and>
         power_on (active s') \<and> mode (active s') = ch CHR ''A'' \<and>
         fan (active s') = fan (active g1_expected))"
proof -
  have h: "comm_state (serial (setup_s21 blank_session)) = Idle"
    "\<not> activate_climate (setup_s21 blank_session)" "\<not> activate_swing_mode (setup_s21 blank_session)"
    "current_query (setup_s21 blank_session) < length (queries (setup_s21 blank_session))"
    "queries (setup_s21 blank_session) ! current_query (setup_s21 blank_session) = cstr ''F1''"
    "2 \<le> S21_MAX_COMMAND_SIZE example_consts"
    "\<not> (60::u32) - 0 > S21_RESPONSE_TIMEOUT example_consts"
    by (simp_all add: setup_s21_def default_queries_def blank_session_def idle_serial_def
          example_consts_def)
  have rg: "\<not> support_RG (setup_s21 blank_session)"
    by (simp add: setup_s21_def blank_session_def)
  have h': "comm_state (serial g1_expected) = Idle"
    "\<not> activate_climate g1_expected" "\<not> activate_swing_mode g1_expected"
    "current_query g1_expected < length (queries g1_expected)"
    "queries g1_expected ! current_query g1_expected = cstr ''F1''"
    by (simp_all add: g1_expected_def setup_s21_def default_queries_def blank_session_def
          idle_serial_def)
  have rg': "support_RG g1_expected"
    by (simp add: g1_expected_def)
  show ?thesis
    using h rg rg' basic_state_end_to_end [OF h] basic_state_end_to_end [OF h' h(6,7)]
    by blast
qed

theorem basic_state_end_to_end_counterexample:
  "map_option (\<lambda>s. power_on (active s))
     (run example_consts [Tick 0, Receive f1_reply, Tick 1] (setup_s21 blank_session)) = Some False"
  by code_simp

section \<open>A negative acknowledgment with the cursor at the end\<close>

text \<open>
  C10. \<open>handle_nak\<close> reads the pool entry at the cursor before it chooses a branch: with the
  cursor at the end of the pool the read has no entry, whatever command was sent. A session
  reaches that state: \<open>command_after_error\<close> leaves it waiting for the acknowledgment of
  \<open>D1\<close> with the cursor at the end, and the \<open>NAK\<close> that follows makes \<open>loop\<close> undefined.
\<close>

theorem handle_nak_reads_cursor:
  "(length (queries s) \<le> current_query s \<longrightarrow> handle_nak k s = None) \<and>
   map_option (\<lambda>s. (current_query s = length (queries s), tx_command s, comm_state (serial s)))
     (run example_consts command_after_error (setup_s21 blank_session)) =
     Some (True, cstr ''D1'', CommandAck) \<and>
   run example_consts (command_after_error @ [Receive [NAK], Tick 5001]) (setup_s21 blank_session) = None"
proof (intro conjI impI)
  assume "length (queries s) \<le> current_query s"
  then show "handle_nak k s = None" by (simp add: handle_nak_def deref_def)
next
  show "map_option (\<lambda>s. (current_query s = length (queries s), tx_command s, comm_state (serial s)))
     (run example_consts command_after_error (setup_s21 blank_session)) =
     Some (True, cstr ''D1'', CommandAck)"
    by code_simp
next
  show "run example_consts (command_after_error @ [Receive [NAK], Tick 5001]) (setup_s21 blank_session) = None"
    by code_simp
qed

theorem handle_nak_reads_cursor_witness:
  "length (queries (blank_session\<lparr>tx_command := cstr ''D1''\<rparr>)) \<le>
     current_query (blank_session\<lparr>tx_command := cstr ''D1''\<rparr>) \<and>
   handle_nak example_consts (blank_session\<lparr>tx_command := cstr ''D1''\<rparr>) = None"
  using handle_nak_reads_cursor [of "blank_session\<lparr>tx_command := cstr ''D1''\<rparr>" example_consts]
  by (simp add: blank_session_def)

end
